theory Spec2Isabelle
  imports Main "HOL-Library.Word" "HOL-Library.Sublist" "HOL-Library.Multiset"
    "HOL-Library.Signed_Division"
begin

section \<open>The local docker query runner\<close>

text \<open>
  The runner drives a Docker engine through its client API. The engine, the clock and the
  runner's context are the outside world: an abstract state \<open>'w\<close> on which every client
  call is a transition that returns the call's result. The embedding threads a \<open>state\<close>
  through the code: the world, the trace of the calls issued so far, and the messages passed
  to the logger. Calls to the metrics package only observe; they are left out, and so are
  the readings of the clock that serve only them.
\<close>

subsection \<open>Errors\<close>

text \<open>
  \<open>ErrExternal\<close> is an error value handed back by the Docker client or the context,
  \<open>ErrNew\<close> is \<^verbatim>\<open>errors.New\<close>, \<open>ErrWrap\<close> is \<^verbatim>\<open>errors.Wrap\<close> on a non-nil error.
  A Go \<^verbatim>\<open>error\<close> that may be nil is an \<open>error option\<close>.
\<close>

datatype error = ErrExternal string | ErrNew string | ErrWrap error string

subsection \<open>Data read from the Docker engine\<close>

text \<open>
  Only the fields the runner reads are kept. \<^verbatim>\<open>uint\<close> (on a 64-bit platform) and
  \<^verbatim>\<open>uint64\<close> are 64-bit words, so the counters wrap as in Go. An \<^verbatim>\<open>int64\<close> that is only
  converted with \<^verbatim>\<open>uint64(.)\<close> is kept as its 64 bits. The other \<^verbatim>\<open>int64\<close> values, among
  them a \<^verbatim>\<open>time.Duration\<close> (a number of nanoseconds) and the creation time of a container (a
  number of seconds since the Unix epoch), are the \<open>int\<close> they denote; where the code adds
  to them, the wrap-around is written out.
\<close>

type_synonym uint = "64 word"
type_synonym uint64 = "64 word"

record Container =
  c_ID :: string
  c_Created :: int
  c_SizeRw :: uint64

record ContainersPruneReport =
  ContainersDeleted :: "string list"
  SpaceReclaimed :: uint64

record ImageSummary =
  is_ID :: string
  is_RepoTags :: "string list"

record ImageInspect =
  ii_ID :: string
  ii_RepoTags :: "string list"
  ii_Size :: uint64
  ii_LastTagTime :: int

record dockertag_ImageTag =
  Digest :: string

record Mount =
  Source :: string
  Target :: string
  ReadOnly :: bool

record ContainerSpec =
  Image :: string
  Labels :: "(string \<times> string) list"
  Mounts :: "Mount list"

type_synonym ReadCloser = nat

text \<open>
  What \<^verbatim>\<open>exec\<close> sees once it waits on the output copy and on the context. Either the copy
  ended first: \<open>CopyDone\<close> carries its error and the two buffers. Or the context was done
  first and \<^verbatim>\<open>exec\<close> executes \<^verbatim>\<open>return "", "", ctx.Err()\<close>: \<open>CtxDone\<close> carries the value
  the named result \<^verbatim>\<open>err\<close> holds when the function has returned. That is \<^verbatim>\<open>ctx.Err()\<close>,
  unless the copy goroutine, which assigns the result of \<^verbatim>\<open>stdcopy.StdCopy\<close> to the same
  \<^verbatim>\<open>err\<close>, writes it after the return statement; the deferred \<^verbatim>\<open>resp.Close()\<close> ends the
  copy, so this is then the read error of the closed connection, or nil if the stream
  ended by itself.
\<close>

datatype copy_result = CopyDone "error option" string string | CtxDone "error option"

subsection \<open>Configuration\<close>

text \<open>
  The declaration of \<^verbatim>\<open>Config\<close> is not part of the sources at hand. The fields are taken
  from their uses: \<^verbatim>\<open>MaxExecRetries\<close> is compared with an \<^verbatim>\<open>int\<close> counter;
  \<^verbatim>\<open>ImageGCCountThreshold\<close> and \<^verbatim>\<open>ImageBufferSize\<close> are counts that the code converts
  with \<^verbatim>\<open>int(.)\<close>, modelled as the natural number the conversion yields.
\<close>

record GCConfig =
  TriggerFrequency :: int
  ContainerTTL :: "int option"
  ImageGCCountThreshold :: "nat option"
  ImageBufferSize :: nat

record Config =
  GC :: "GCConfig option"
  MaxExecRetries :: int
  ExecRetryDelay :: int
  CustomConfigPath :: "string option"

subsection \<open>The Docker client and the runner\<close>

record 'w Client =
  ContainersPrune :: "string \<Rightarrow> 'w \<Rightarrow> (error + ContainersPruneReport) \<times> 'w"
  ContainerList :: "string \<Rightarrow> 'w \<Rightarrow> (error + Container list) \<times> 'w"
  ContainerRemove :: "string \<Rightarrow> 'w \<Rightarrow> error option \<times> 'w"
  ImageList :: "'w \<Rightarrow> (error + ImageSummary list) \<times> 'w"
  ImageInspectWithRaw :: "string \<Rightarrow> 'w \<Rightarrow> (error + ImageInspect) \<times> 'w"
  ImageRemove :: "string \<Rightarrow> 'w \<Rightarrow> error option \<times> 'w"
  ImagePull :: "string \<Rightarrow> 'w \<Rightarrow> (error + ReadCloser) \<times> 'w"
  ImageTag :: "string \<Rightarrow> string \<Rightarrow> 'w \<Rightarrow> error option \<times> 'w"
  ContainerCreate :: "ContainerSpec \<Rightarrow> 'w \<Rightarrow> (error + string) \<times> 'w"
  ContainerStart :: "string \<Rightarrow> 'w \<Rightarrow> error option \<times> 'w"
  ContainerExecCreate :: "string \<Rightarrow> string list \<Rightarrow> 'w \<Rightarrow> (error + string) \<times> 'w"
  ContainerExecAttach :: "string \<Rightarrow> 'w \<Rightarrow> error option \<times> 'w"

text \<open>
  \<open>ctx r w\<close> holds when the runner's own context \<^verbatim>\<open>r.ctx\<close> is done in world \<open>w\<close>.
\<close>

record 'w Runner =
  ctx :: "'w \<Rightarrow> bool"
  cfg :: Config
  repository :: string
  cli :: "'w Client"
  tagStorage :: "string \<Rightarrow> dockertag_ImageTag option"

text \<open>
  Declarations the runner uses from packages whose source is not at hand, taken as
  parameters: package \<^verbatim>\<open>qrunner\<close> (naming and labelling conventions), and from the Go
  libraries \<^verbatim>\<open>sort.Slice\<close> (given the \<^verbatim>\<open>less\<close> function on elements), \<^verbatim>\<open>time.Now\<close>,
  \<^verbatim>\<open>time.Sleep\<close>, \<^verbatim>\<open>io.ReadAll\<close> (only its error), \<^verbatim>\<open>path.Ext\<close>, the Docker
  client's \<^verbatim>\<open>IsErrNotFound\<close>, and \<^verbatim>\<open>stdcopy.StdCopy\<close> on the attached exec session
  together with the \<^verbatim>\<open>select\<close> that waits for it or for the context.
\<close>

record 'w Lib =
  LabelOwnership :: string
  IsPlaygroundImageName :: "string \<Rightarrow> string \<Rightarrow> bool"
  FullImageName :: "string \<Rightarrow> string \<Rightarrow> string"
  PlaygroundImageName :: "string \<Rightarrow> string \<Rightarrow> string"
  CreateContainerLabels :: "string \<Rightarrow> string \<Rightarrow> (string \<times> string) list"
  sort_Slice :: "(ImageInspect \<Rightarrow> ImageInspect \<Rightarrow> bool) \<Rightarrow> ImageInspect list \<Rightarrow> ImageInspect list"
  time_Now :: "'w \<Rightarrow> int \<times> 'w"
  time_Sleep :: "int \<Rightarrow> 'w \<Rightarrow> 'w"
  io_ReadAll :: "ReadCloser \<Rightarrow> 'w \<Rightarrow> error option \<times> 'w"
  stdcopy_StdCopy :: "string \<Rightarrow> 'w \<Rightarrow> copy_result \<times> 'w"
  path_Ext :: "string \<Rightarrow> string"
  IsErrNotFound :: "error \<Rightarrow> bool"

subsection \<open>Traces\<close>

text \<open>
  One event per client call, clock reading and sleep of the code, with the arguments that
  matter and, for the clock and for image removal, the result.
\<close>

datatype event =
    EvNow int
  | EvSleep int
  | EvContainersPrune string
  | EvContainerList string
  | EvContainerRemove string
  | EvImageList
  | EvImageInspect string
  | EvImageRemove string bool
  | EvImagePull string
  | EvReadAll
  | EvImageTag string string
  | EvContainerCreate ContainerSpec
  | EvContainerStart string
  | EvExecCreate string "string list"
  | EvExecAttach string
  | EvStdCopy string

datatype level = Debug | Info | Error

record 'w state =
  world :: 'w
  trace :: "event list"
  logs :: "(level \<times> string) list"

definition call :: "('w \<Rightarrow> 'a \<times> 'w) \<Rightarrow> ('a \<Rightarrow> event) \<Rightarrow> 'w state \<Rightarrow> 'a \<times> 'w state" where
  "call f ev s = (case f (world s) of (a, w) \<Rightarrow> (a, s\<lparr>world := w, trace := trace s @ [ev a]\<rparr>))"

definition zlog :: "level \<Rightarrow> string \<Rightarrow> 'w state \<Rightarrow> 'w state" where
  "zlog lvl msg s = s\<lparr>logs := logs s @ [(lvl, msg)]\<rparr>"

definition isStopped :: "'w Runner \<Rightarrow> 'w state \<Rightarrow> bool" where
  "isStopped r s = ctx r (world s)"

subsection \<open>Container removal\<close>

definition forceRemoveContainer :: "'w Runner \<Rightarrow> string \<Rightarrow> 'w state \<Rightarrow> error option \<times> 'w state" where
  "forceRemoveContainer r cid s =
     (case call (ContainerRemove (cli r) cid) (\<lambda>_. EvContainerRemove cid) s of
        (Some e, s1) \<Rightarrow> (Some e, s1)
      | (None, s1) \<Rightarrow> (None, zlog Debug ''container has been force removed'' s1))"

subsection \<open>Dates as the time package computes them\<close>

text \<open>
  The sweep of hung containers compares the clock with \<^verbatim>\<open>time.Unix(c.Created, 0).Add(ttl)\<close>.
  A \<^verbatim>\<open>time.Time\<close> without a monotonic reading is a number of seconds since 1 January of
  year 1, held in an \<^verbatim>\<open>int64\<close>, and a number of nanoseconds within the second.
  \<^verbatim>\<open>time.Unix\<close> adds the offset of the Unix epoch with a plain \<^verbatim>\<open>int64\<close> addition, which
  wraps around; \<^verbatim>\<open>Add\<close> splits the duration with Go's truncating division and remainder
  and lets \<^verbatim>\<open>addSec\<close> saturate. \<^verbatim>\<open>Before\<close> compares seconds, then nanoseconds.
  The clock itself is read as the number \<open>n\<close> of nanoseconds since the Unix epoch, and
  \<open>clockTime n\<close> is the \<^verbatim>\<open>Time\<close> that \<^verbatim>\<open>time.Now()\<close> then returns.
\<close>

record Time =
  t_sec :: int
  t_nsec :: int

definition wrap64 :: "int \<Rightarrow> int" where
  "wrap64 x = (x + 9223372036854775808) mod 18446744073709551616 - 9223372036854775808"

definition unixToInternal :: int where
  "unixToInternal = 62135596800"

definition time_Unix :: "int \<Rightarrow> Time" where
  "time_Unix s = \<lparr>t_sec = wrap64 (s + unixToInternal), t_nsec = 0\<rparr>"

definition addSec :: "int \<Rightarrow> int \<Rightarrow> int" where
  "addSec ext d =
     (let sum = wrap64 (ext + d) in
      if (sum > ext) = (d > 0) then sum
      else if d > 0 then 9223372036854775807
      else - 9223372036854775807)"

definition Add :: "Time \<Rightarrow> int \<Rightarrow> Time" where
  "Add t d =
     (let dsec = d sdiv 1000000000;
          nsec = t_nsec t + d smod 1000000000 in
      if nsec \<ge> 1000000000 then \<lparr>t_sec = addSec (t_sec t) (dsec + 1), t_nsec = nsec - 1000000000\<rparr>
      else if nsec < 0 then \<lparr>t_sec = addSec (t_sec t) (dsec - 1), t_nsec = nsec + 1000000000\<rparr>
      else \<lparr>t_sec = addSec (t_sec t) dsec, t_nsec = nsec\<rparr>)"

definition Before :: "Time \<Rightarrow> Time \<Rightarrow> bool" where
  "Before t u = (t_sec t < t_sec u \<or> (t_sec t = t_sec u \<and> t_nsec t < t_nsec u))"

definition clockTime :: "int \<Rightarrow> Time" where
  "clockTime n = \<lparr>t_sec = n div 1000000000 + unixToInternal, t_nsec = n mod 1000000000\<rparr>"

subsection \<open>Garbage collection of containers\<close>

text \<open>
  The loop of \<^verbatim>\<open>triggerContainersGC\<close> over the listed containers. The clock is read once
  per container.
\<close>

fun sweepContainers ::
  "'w Lib \<Rightarrow> 'w Runner \<Rightarrow> int \<Rightarrow> Container list \<Rightarrow> uint \<Rightarrow> uint64 \<Rightarrow> 'w state \<Rightarrow> uint \<times> uint64 \<times> 'w state" where
  "sweepContainers l r ttl [] cnt spaceReclaimed s = (cnt, spaceReclaimed, s)"
| "sweepContainers l r ttl (c # cs) cnt spaceReclaimed s =
     (let deadline = Add (time_Unix (c_Created c)) ttl in
      case call (time_Now l) EvNow s of (now, s1) \<Rightarrow>
        if Before (clockTime now) deadline then sweepContainers l r ttl cs cnt spaceReclaimed s1
        else (case forceRemoveContainer r (c_ID c) s1 of
            (Some e, s2) \<Rightarrow>
              sweepContainers l r ttl cs cnt spaceReclaimed
                (zlog Error ''containers gc failed to remove container'' s2)
          | (None, s2) \<Rightarrow>
              sweepContainers l r ttl cs (cnt + 1) (spaceReclaimed + c_SizeRw c) s2))"

text \<open>
  The garbage collector's functions take the dereferenced \<^verbatim>\<open>r.cfg.GC\<close> as \<open>g\<close>:
  \<^verbatim>\<open>StartGarbageCollector\<close> returns before any trigger when it is nil.
\<close>

definition triggerContainersGC ::
  "'w Lib \<Rightarrow> 'w Runner \<Rightarrow> GCConfig \<Rightarrow> 'w state \<Rightarrow> (uint \<times> uint64 \<times> error option) \<times> 'w state" where
  "triggerContainersGC l r g s =
     (case call (ContainersPrune (cli r) (LabelOwnership l)) (\<lambda>_. EvContainersPrune (LabelOwnership l)) s of
        (Inl e, s1) \<Rightarrow> ((0, 0, Some (ErrWrap e ''failed to prune stopped containers'')), s1)
      | (Inr out, s1) \<Rightarrow>
          (let cnt = of_nat (length (ContainersDeleted out));
               spaceReclaimed = SpaceReclaimed out in
           case ContainerTTL g of
             None \<Rightarrow> ((cnt, spaceReclaimed, None), s1)
           | Some ttl \<Rightarrow>
               (case call (ContainerList (cli r) (LabelOwnership l)) (\<lambda>_. EvContainerList (LabelOwnership l)) s1 of
                  (Inl e, s2) \<Rightarrow> ((cnt, spaceReclaimed, Some (ErrWrap e ''failed to list containers'')), s2)
                | (Inr containers, s2) \<Rightarrow>
                    (case sweepContainers l r ttl containers cnt spaceReclaimed s2 of
                       (cnt', spaceReclaimed', s3) \<Rightarrow> ((cnt', spaceReclaimed', None), s3)))))"

subsection \<open>Garbage collection of images\<close>

text \<open>The inner loop of \<^verbatim>\<open>removeImages\<close> over the tags of one image, carrying \<open>ok\<close>.\<close>

fun removeTags :: "'w Runner \<Rightarrow> string list \<Rightarrow> bool \<Rightarrow> 'w state \<Rightarrow> bool \<times> 'w state" where
  "removeTags r [] ok s = (ok, s)"
| "removeTags r (tag # tags) ok s =
     (case call (ImageRemove (cli r) tag) (\<lambda>e. EvImageRemove tag (e = None)) s of
        (Some e, s1) \<Rightarrow> removeTags r tags False (zlog Error ''failed to delete image tag'' s1)
      | (None, s1) \<Rightarrow> removeTags r tags ok s1)"

fun removeImagesFrom ::
  "'w Runner \<Rightarrow> ImageInspect list \<Rightarrow> uint \<Rightarrow> uint64 \<Rightarrow> 'w state \<Rightarrow> uint \<times> uint64 \<times> 'w state" where
  "removeImagesFrom r [] cnt spaceReclaimed s = (cnt, spaceReclaimed, s)"
| "removeImagesFrom r (img # images) cnt spaceReclaimed s =
     (case removeTags r (ii_RepoTags img) True s of
        (ok, s1) \<Rightarrow>
          if \<not> ok then removeImagesFrom r images cnt spaceReclaimed s1
          else removeImagesFrom r images (cnt + 1) (spaceReclaimed + ii_Size img)
                 (zlog Debug ''image has been removed'' s1))"

definition removeImages :: "'w Runner \<Rightarrow> ImageInspect list \<Rightarrow> 'w state \<Rightarrow> uint \<times> uint64 \<times> 'w state" where
  "removeImages r images s = removeImagesFrom r images 0 0 s"

text \<open>The search for a playground tag among the tags of a listed image.\<close>

fun matched :: "'w Lib \<Rightarrow> string \<Rightarrow> string list \<Rightarrow> bool" where
  "matched l repo [] = False"
| "matched l repo (tag # tags) = (if IsPlaygroundImageName l tag repo then True else matched l repo tags)"

definition candidatesOf :: "'w Lib \<Rightarrow> 'w Runner \<Rightarrow> ImageSummary list \<Rightarrow> ImageSummary list" where
  "candidatesOf l r images = filter (\<lambda>img. matched l (repository r) (is_RepoTags img)) images"

text \<open>The loop that inspects the candidates; a failed inspection is logged and skipped.\<close>

fun inspectCandidates ::
  "'w Runner \<Rightarrow> ImageSummary list \<Rightarrow> ImageInspect list \<Rightarrow> 'w state \<Rightarrow> ImageInspect list \<times> 'w state" where
  "inspectCandidates r [] detailed s = (detailed, s)"
| "inspectCandidates r (c # cs) detailed s =
     (case call (ImageInspectWithRaw (cli r) (is_ID c)) (\<lambda>_. EvImageInspect (is_ID c)) s of
        (Inl e, s1) \<Rightarrow> inspectCandidates r cs detailed (zlog Error ''docker image inspect failed'' s1)
      | (Inr inspect, s1) \<Rightarrow> inspectCandidates r cs (detailed @ [inspect]) s1)"

text \<open>The \<^verbatim>\<open>less\<close> function handed to \<^verbatim>\<open>sort.Slice\<close>, on the elements it compares.\<close>

definition lessLastTagTime :: "ImageInspect \<Rightarrow> ImageInspect \<Rightarrow> bool" where
  "lessLastTagTime a b = (ii_LastTagTime a < ii_LastTagTime b)"

definition triggerImagesGC ::
  "'w Lib \<Rightarrow> 'w Runner \<Rightarrow> GCConfig \<Rightarrow> 'w state \<Rightarrow> (uint \<times> uint64 \<times> error option) \<times> 'w state" where
  "triggerImagesGC l r g s =
     (case ImageGCCountThreshold g of
        None \<Rightarrow> ((0, 0, None), s)
      | Some threshold \<Rightarrow>
          (case call (ImageList (cli r)) (\<lambda>_. EvImageList) s of
             (Inl e, s1) \<Rightarrow> ((0, 0, Some (ErrWrap e ''failed to list images'')), s1)
           | (Inr images, s1) \<Rightarrow>
               (let candidates = candidatesOf l r images in
                if length candidates < threshold then ((0, 0, None), s1)
                else (case inspectCandidates r candidates [] s1 of
                    (detailed, s2) \<Rightarrow>
                      (let ordered = sort_Slice l lessLastTagTime detailed in
                       if length ordered > ImageBufferSize g
                       then (case removeImages r (drop (ImageBufferSize g) ordered) s2 of
                               (cnt, spaceReclaimed, s3) \<Rightarrow> ((cnt, spaceReclaimed, None), s3))
                       else ((0, 0, None), s2))))))"

subsection \<open>One trigger of the garbage collector\<close>

definition triggerGC :: "'w Lib \<Rightarrow> 'w Runner \<Rightarrow> GCConfig \<Rightarrow> 'w state \<Rightarrow> error option \<times> 'w state" where
  "triggerGC l r g s =
     (if isStopped r s then (None, s)
      else (case triggerContainersGC l r g s of
          ((_, _, Some e), s1) \<Rightarrow> (Some (ErrWrap e ''containers gc failed''), s1)
        | ((_, _, None), s1) \<Rightarrow>
            if isStopped r s1 then (None, s1)
            else (case triggerImagesGC l r g s1 of
                ((_, _, Some e), s2) \<Rightarrow> (Some (ErrWrap e ''images gc failed''), s2)
              | ((_, _, None), s2) \<Rightarrow> (None, zlog Debug ''gc finished'' s2))))"

text \<open>The closure \<^verbatim>\<open>trigger\<close> of \<^verbatim>\<open>StartGarbageCollector\<close>, run once at start and once per tick.\<close>

definition trigger :: "'w Lib \<Rightarrow> 'w Runner \<Rightarrow> GCConfig \<Rightarrow> 'w state \<Rightarrow> 'w state" where
  "trigger l r g s =
     (case triggerGC l r g s of
        (Some e, s1) \<Rightarrow> zlog Error ''localdocker gc trigger failed'' s1
      | (None, s1) \<Rightarrow> s1)"

subsection \<open>Strings\<close>

text \<open>
  Go strings are byte sequences. \<^verbatim>\<open>strings.Contains(s, substr)\<close> reports whether
  \<open>substr\<close> occurs in \<open>s\<close> as a contiguous run of bytes.
\<close>

fun Contains :: "string \<Rightarrow> string \<Rightarrow> bool" where
  "Contains [] substr = (substr = [])"
| "Contains (c # s) substr = (prefix substr (c # s) \<or> Contains s substr)"

definition sentinel :: string where
  "sentinel = ''DB::NetException: Connection refused''"

text \<open>
  \<^verbatim>\<open>func (r *Runner) checkIfQueryExecuted(_, stderr string) bool\<close>: the receiver is not
  used, the first argument is discarded.
\<close>

definition checkIfQueryExecuted :: "string \<Rightarrow> string \<Rightarrow> bool" where
  "checkIfQueryExecuted stdout stderr = (\<not> Contains stderr sentinel)"

subsection \<open>The request path\<close>

record requestState =
  runID :: string
  version :: string
  query :: string
  chpImageName :: string
  containerID :: string

definition checkIfImageExists :: "'w Lib \<Rightarrow> 'w Runner \<Rightarrow> requestState \<Rightarrow> 'w state \<Rightarrow> bool \<times> 'w state" where
  "checkIfImageExists l r st s =
     (case call (ImageInspectWithRaw (cli r) (chpImageName st)) (\<lambda>_. EvImageInspect (chpImageName st)) s of
        (Inr _, s1) \<Rightarrow> (True, zlog Debug ''image has already been pulled'' s1)
      | (Inl e, s1) \<Rightarrow>
          (False, if \<not> IsErrNotFound l e then zlog Error ''docker inspect failed'' s1 else s1))"

text \<open>
  \<^verbatim>\<open>pull\<close> writes \<^verbatim>\<open>state.chpImageName\<close>; the embedding returns the updated request state
  next to the error.
\<close>

definition pull ::
  "'w Lib \<Rightarrow> 'w Runner \<Rightarrow> requestState \<Rightarrow> 'w state \<Rightarrow> error option \<times> requestState \<times> 'w state" where
  "pull l r st s =
     (let imageName = FullImageName l (repository r) (version st) in
      case tagStorage r (version st) of
        None \<Rightarrow> (Some (ErrNew ''version not found''), st, s)
      | Some tag \<Rightarrow>
          (let st1 = st\<lparr>chpImageName := PlaygroundImageName l (repository r) (Digest tag)\<rparr> in
           case checkIfImageExists l r st1 s of
             (True, s1) \<Rightarrow> (None, st1, s1)
           | (False, s1) \<Rightarrow>
               (case call (ImagePull (cli r) imageName) (\<lambda>_. EvImagePull imageName) s1 of
                  (Inl e, s2) \<Rightarrow> (Some (ErrWrap e ''docker pull failed''), st1, s2)
                | (Inr out, s2) \<Rightarrow>
                    (case call (io_ReadAll l out) (\<lambda>_. EvReadAll) s2 of
                       (rerr, s3) \<Rightarrow>
                         (let s4 = (case rerr of
                                      Some e \<Rightarrow> zlog Error ''failed to read pull output'' s3
                                    | None \<Rightarrow> s3);
                              s5 = zlog Debug ''base image has been pulled'' s4 in
                          case call (ImageTag (cli r) imageName (chpImageName st1))
                                 (\<lambda>_. EvImageTag imageName (chpImageName st1)) s5 of
                            (Some e, s6) \<Rightarrow>
                              (Some (ErrWrap e ''failed to tag image''), st1,
                               zlog Error ''failed to rename image'' s6)
                          | (None, s6) \<Rightarrow> (None, st1, zlog Debug ''image has been pulled'' s6))))))"

definition runContainer ::
  "'w Lib \<Rightarrow> 'w Runner \<Rightarrow> requestState \<Rightarrow> 'w state \<Rightarrow> error option \<times> requestState \<times> 'w state" where
  "runContainer l r st s =
     (let spec = \<lparr>Image = chpImageName st,
                  Labels = CreateContainerLabels l (runID st) (version st),
                  Mounts = (case CustomConfigPath (cfg r) of
                              None \<Rightarrow> []
                            | Some p \<Rightarrow>
                                [\<lparr>Source = p,
                                  Target = ''/etc/clickhouse-server/config.d/custom-config'' @ path_Ext l p,
                                  ReadOnly = True\<rparr>])\<rparr> in
      case call (ContainerCreate (cli r) spec) (\<lambda>_. EvContainerCreate spec) s of
        (Inl e, s1) \<Rightarrow> (Some (ErrWrap e ''container cannot be created''), st, s1)
      | (Inr contID, s1) \<Rightarrow>
          (case call (ContainerStart (cli r) contID) (\<lambda>_. EvContainerStart contID)
                  (zlog Debug ''container has been created'' s1) of
             (Some e, s2) \<Rightarrow> (Some (ErrWrap e ''container cannot be started''), st, s2)
           | (None, s2) \<Rightarrow>
               (None, st\<lparr>containerID := contID\<rparr>, zlog Debug ''container has been started'' s2)))"

text \<open>
  \<^verbatim>\<open>exec\<close> returns \<open>Inl err\<close> for \<^verbatim>\<open>("", "", err)\<close> with a non-nil \<^verbatim>\<open>err\<close> and
  \<open>Inr (stdout, stderr)\<close> for \<^verbatim>\<open>(stdout, stderr, nil)\<close>. The deferred \<^verbatim>\<open>resp.Close()\<close> is not
  recorded in the trace.
\<close>

definition exec ::
  "'w Lib \<Rightarrow> 'w Runner \<Rightarrow> requestState \<Rightarrow> 'w state \<Rightarrow> (error + string \<times> string) \<times> 'w state" where
  "exec l r st s =
     (let cmd = [''clickhouse-client'', ''-n'', ''-m'', ''--query'', query st] in
      case call (ContainerExecCreate (cli r) (containerID st) cmd) (\<lambda>_. EvExecCreate (containerID st) cmd) s of
        (Inl e, s1) \<Rightarrow> (Inl (ErrWrap e ''exec create failed''), s1)
      | (Inr execID, s1) \<Rightarrow>
          (case call (ContainerExecAttach (cli r) execID) (\<lambda>_. EvExecAttach execID) s1 of
             (Some e, s2) \<Rightarrow> (Inl (ErrWrap e ''exec attach failed''), s2)
           | (None, s2) \<Rightarrow>
               (case call (stdcopy_StdCopy l execID) (\<lambda>_. EvStdCopy execID) s2 of
                  (CopyDone (Some e) outBuf errBuf, s3) \<Rightarrow> (Inl (ErrWrap e ''failed to get output''), s3)
                | (CtxDone (Some e), s3) \<Rightarrow> (Inl e, s3)
                | (CtxDone None, s3) \<Rightarrow> (Inr ('''', ''''), s3)
                | (CopyDone None outBuf errBuf, s3) \<Rightarrow>
                    (Inr (outBuf, errBuf), zlog Debug ''exec finished'' s3))))"

definition sleep :: "'w Lib \<Rightarrow> int \<Rightarrow> 'w state \<Rightarrow> 'w state" where
  "sleep l d s = snd (call (\<lambda>w. ((), time_Sleep l d w)) (\<lambda>_. EvSleep d) s)"

text \<open>
  The loop of \<^verbatim>\<open>runQuery\<close>, from the value \<open>retry\<close> of its counter and the current values
  of \<^verbatim>\<open>stdout\<close> and \<^verbatim>\<open>stderr\<close>: \<open>Inl err\<close> is the \<^verbatim>\<open>return "", err\<close> inside the loop,
  \<open>Inr\<close> carries the two variables as they are when the loop is left.
\<close>

function execLoop ::
  "'w Lib \<Rightarrow> 'w Runner \<Rightarrow> requestState \<Rightarrow> int \<Rightarrow> string \<Rightarrow> string \<Rightarrow> 'w state
     \<Rightarrow> (error + string \<times> string) \<times> 'w state" where
  "execLoop l r st retry stdout stderr s =
     (if retry < MaxExecRetries (cfg r) then
        (case exec l r st s of
           (Inl e, s1) \<Rightarrow> (Inl e, s1)
         | (Inr (out, err), s1) \<Rightarrow>
             if checkIfQueryExecuted out err
             then (Inr (out, err), zlog Debug ''query has been executed'' s1)
             else execLoop l r st (retry + 1) out err (sleep l (ExecRetryDelay (cfg r)) s1))
      else (Inr (stdout, stderr), s))"
  by pat_completeness auto
termination
  by (relation "measure (\<lambda>(l, r, st, retry, stdout, stderr, s). nat (MaxExecRetries (cfg r) - retry))") auto

definition runQuery ::
  "'w Lib \<Rightarrow> 'w Runner \<Rightarrow> requestState \<Rightarrow> 'w state \<Rightarrow> (error + string) \<times> 'w state" where
  "runQuery l r st s =
     (case execLoop l r st 0 '''' '''' s of
        (Inl e, s1) \<Rightarrow> (Inl e, s1)
      | (Inr (stdout, stderr), s1) \<Rightarrow>
          if stderr = '''' then (Inr stdout, s1)
          else (Inr (stdout @ [CHR 0x0A] @ stderr), s1))"

text \<open>
  The goroutine that \<^verbatim>\<open>RunQuery\<close> starts once the container runs: it waits for the
  caller's context or for the channel \<^verbatim>\<open>done\<close>, then force-removes the container.
  \<open>watcher\<close> is its body after the wait.
\<close>

definition watcher :: "'w Runner \<Rightarrow> requestState \<Rightarrow> 'w state \<Rightarrow> 'w state" where
  "watcher r st s =
     (case forceRemoveContainer r (containerID st) s of
        (Some e, s1) \<Rightarrow> zlog Error ''failed to kill container'' s1
      | (None, s1) \<Rightarrow> s1)"

text \<open>
  \<^verbatim>\<open>RunQuery\<close> on the schedule where the watcher is released by the deferred
  \<^verbatim>\<open>close(done)\<close>, that is, when the function returns: its body then runs after
  \<^verbatim>\<open>runQuery\<close>. The returned value is that of the calling goroutine.
\<close>

definition RunQuery ::
  "'w Lib \<Rightarrow> 'w Runner \<Rightarrow> string \<Rightarrow> string \<Rightarrow> string \<Rightarrow> 'w state \<Rightarrow> (error + string) \<times> 'w state" where
  "RunQuery l r rid q v s =
     (let st = \<lparr>runID = rid, version = v, query = q, chpImageName = '''', containerID = ''''\<rparr> in
      case pull l r st s of
        (Some e, _, s1) \<Rightarrow> (Inl (ErrWrap e ''pull failed''), s1)
      | (None, st1, s1) \<Rightarrow>
          (case runContainer l r st1 s1 of
             (Some e, _, s2) \<Rightarrow> (Inl (ErrWrap e ''failed to run container''), s2)
           | (None, st2, s2) \<Rightarrow>
               (case runQuery l r st2 s2 of
                  (Inl e, s3) \<Rightarrow> (Inl (ErrWrap e ''failed to run query''), watcher r st2 s3)
                | (Inr output, s3) \<Rightarrow> (Inr output, watcher r st2 s3))))"

subsection \<open>Predicates on traces\<close>

text \<open>The events that open an exec session, one per attempt of \<^verbatim>\<open>runQuery\<close>.\<close>

fun isExecCreate :: "event \<Rightarrow> bool" where
  "isExecCreate (EvExecCreate cid cmd) = True"
| "isExecCreate _ = False"


subsection \<open>The contract of sort.Slice\<close>

text \<open>
  \<^verbatim>\<open>sort.Slice\<close> rearranges the slice so that no element is \<^verbatim>\<open>less\<close> than one before it;
  the order of elements that compare equal is not fixed (the sort is not stable).
\<close>

definition sortsBy ::
  "(('a \<Rightarrow> 'a \<Rightarrow> bool) \<Rightarrow> 'a list \<Rightarrow> 'a list) \<Rightarrow> ('a \<Rightarrow> 'a \<Rightarrow> bool) \<Rightarrow> bool" where
  "sortsBy srt lt = (\<forall>xs. mset (srt lt xs) = mset xs \<and> sorted_wrt (\<lambda>a b. \<not> lt b a) (srt lt xs))"

text \<open>One sort that meets it, for concrete runs: insertion sort.\<close>

fun insertBy :: "('a \<Rightarrow> 'a \<Rightarrow> bool) \<Rightarrow> 'a \<Rightarrow> 'a list \<Rightarrow> 'a list" where
  "insertBy lt x [] = [x]"
| "insertBy lt x (y # ys) = (if lt x y then x # y # ys else y # insertBy lt x ys)"

fun insertionSort :: "('a \<Rightarrow> 'a \<Rightarrow> bool) \<Rightarrow> 'a list \<Rightarrow> 'a list" where
  "insertionSort lt [] = []"
| "insertionSort lt (x # xs) = insertBy lt x (insertionSort lt xs)"

subsection \<open>A scripted engine for concrete runs\<close>

text \<open>
  The world is the clock, in nanoseconds. Every call succeeds and leaves the clock alone,
  no image and no container exists, sleeping advances the clock. Single runs change the
  answers they need with a record update.
\<close>

definition scriptedClient :: "int Client" where
  "scriptedClient =
     \<lparr>ContainersPrune = (\<lambda>lbl w. (Inr \<lparr>ContainersDeleted = [], SpaceReclaimed = 0\<rparr>, w)),
      ContainerList = (\<lambda>lbl w. (Inr [], w)),
      ContainerRemove = (\<lambda>cid w. (None, w)),
      ImageList = (\<lambda>w. (Inr [], w)),
      ImageInspectWithRaw = (\<lambda>name w. (Inl (ErrExternal ''no such image''), w)),
      ImageRemove = (\<lambda>tag w. (None, w)),
      ImagePull = (\<lambda>name w. (Inr 0, w)),
      ImageTag = (\<lambda>src dst w. (None, w)),
      ContainerCreate = (\<lambda>spec w. (Inr ''c1'', w)),
      ContainerStart = (\<lambda>cid w. (None, w)),
      ContainerExecCreate = (\<lambda>cid cmd w. (Inr ''e1'', w)),
      ContainerExecAttach = (\<lambda>eid w. (None, w))\<rparr>"

definition scriptedLib :: "int Lib" where
  "scriptedLib =
     \<lparr>LabelOwnership = ''owner=chp'',
      IsPlaygroundImageName = (\<lambda>tag repo. prefix (''chp-'' @ repo) tag),
      FullImageName = (\<lambda>repo v. repo @ '':'' @ v),
      PlaygroundImageName = (\<lambda>repo digest. ''chp-'' @ repo @ '':'' @ digest),
      CreateContainerLabels = (\<lambda>rid v. [(''owner'', ''chp''), (''run'', rid), (''version'', v)]),
      sort_Slice = insertionSort,
      time_Now = (\<lambda>w. (w, w)),
      time_Sleep = (\<lambda>d w. w + d),
      io_ReadAll = (\<lambda>rd w. (None, w)),
      stdcopy_StdCopy = (\<lambda>eid w. (CopyDone None ''1'' '''', w)),
      path_Ext = (\<lambda>p. ''''),
      IsErrNotFound = (\<lambda>e. e = ErrExternal ''no such image'')\<rparr>"

definition scriptedGC :: GCConfig where
  "scriptedGC = \<lparr>TriggerFrequency = 60000000000, ContainerTTL = Some 30000000000,
                 ImageGCCountThreshold = Some 2, ImageBufferSize = 1\<rparr>"

definition scriptedRunner :: "int Runner" where
  "scriptedRunner =
     \<lparr>ctx = (\<lambda>w. False),
      cfg = \<lparr>GC = Some scriptedGC, MaxExecRetries = 2, ExecRetryDelay = 1000000,
             CustomConfigPath = None\<rparr>,
      repository = ''ch'',
      cli = scriptedClient,
      tagStorage = (\<lambda>v. if v = ''22.1'' then Some \<lparr>Digest = ''abc''\<rparr> else None)\<rparr>"

definition scriptedRequest :: requestState where
  "scriptedRequest = \<lparr>runID = ''r1'', version = ''22.1'', query = ''SELECT 1'',
                       chpImageName = ''chp-ch:abc'', containerID = ''c1''\<rparr>"

definition start :: "int state" where
  "start = \<lparr>world = 100000000000, trace = [], logs = []\<rparr>"

text \<open>A runner with no retry budget, and an engine whose server never becomes ready.\<close>

definition noRetryRunner :: "int Runner" where
  "noRetryRunner = scriptedRunner\<lparr>cfg := (cfg scriptedRunner)\<lparr>MaxExecRetries := 0\<rparr>\<rparr>"

definition notReadyLib :: "int Lib" where
  "notReadyLib = scriptedLib\<lparr>stdcopy_StdCopy := (\<lambda>eid w. (CopyDone None ''a'' sentinel, w))\<rparr>"

text \<open>
  An engine whose server is ready only once the clock has reached 100.005 s: two attempts
  one millisecond apart, started at 100 s, both meet the sentinel.
\<close>

definition laterReadyLib :: "int Lib" where
  "laterReadyLib = scriptedLib\<lparr>stdcopy_StdCopy := (\<lambda>eid w.
     if w < 100005000000 then (CopyDone None ''a'' sentinel, w) else (CopyDone None ''1'' '''', w))\<rparr>"

text \<open>An engine that already holds the playground image, and one whose prune call fails.\<close>

definition cachedRunner :: "int Runner" where
  "cachedRunner = scriptedRunner\<lparr>cli := scriptedClient
     \<lparr>ImageInspectWithRaw := (\<lambda>name w.
        (Inr \<lparr>ii_ID = ''i1'', ii_RepoTags = [name], ii_Size = 5, ii_LastTagTime = 10\<rparr>, w))\<rparr>\<rparr>"

definition failingPruneRunner :: "int Runner" where
  "failingPruneRunner = scriptedRunner\<lparr>cli := scriptedClient
     \<lparr>ContainersPrune := (\<lambda>lbl w. (Inl (ErrExternal ''engine is down''), w))\<rparr>\<rparr>"

text \<open>
  An engine that refuses to remove one tag, with two images to remove; and an engine with
  one container past its time to live and one within it.
\<close>

definition partialRunner :: "int Runner" where
  "partialRunner = scriptedRunner\<lparr>cli := scriptedClient
     \<lparr>ImageRemove := (\<lambda>tag w.
        (if tag = ''chp-ch:a2'' then Some (ErrExternal ''image is in use'') else None, w))\<rparr>\<rparr>"

definition twoImages :: "ImageInspect list" where
  "twoImages =
     [\<lparr>ii_ID = ''A'', ii_RepoTags = [''chp-ch:a1'', ''chp-ch:a2''], ii_Size = 7, ii_LastTagTime = 10\<rparr>,
      \<lparr>ii_ID = ''B'', ii_RepoTags = [''chp-ch:b1''], ii_Size = 5, ii_LastTagTime = 20\<rparr>]"




text \<open>
  An engine that holds three playground images, listed in no particular order and tagged
  at times 10 (\<open>old\<close>), 20 (\<open>mid\<close>) and 30 (\<open>new\<close>).
\<close>

definition threeSummaries :: "ImageSummary list" where
  "threeSummaries =
     [\<lparr>is_ID = ''new'', is_RepoTags = [''chp-ch:new'']\<rparr>,
      \<lparr>is_ID = ''old'', is_RepoTags = [''chp-ch:old'']\<rparr>,
      \<lparr>is_ID = ''mid'', is_RepoTags = [''chp-ch:mid'']\<rparr>]"

definition inspectOf :: "string \<Rightarrow> ImageInspect" where
  "inspectOf name =
     \<lparr>ii_ID = name, ii_RepoTags = [''chp-ch:'' @ name], ii_Size = 1,
      ii_LastTagTime = (if name = ''old'' then 10 else if name = ''mid'' then 20 else 30)\<rparr>"

definition threeImagesRunner :: "int Runner" where
  "threeImagesRunner = scriptedRunner\<lparr>cli := scriptedClient
     \<lparr>ImageList := (\<lambda>w. (Inr threeSummaries, w)),
      ImageInspectWithRaw := (\<lambda>name w. (Inr (inspectOf name), w))\<rparr>\<rparr>"

text \<open>
  An engine that lists three images, only one of them under a playground name of the
  repository.
\<close>

definition mixedSummaries :: "ImageSummary list" where
  "mixedSummaries =
     [\<lparr>is_ID = ''ubuntu'', is_RepoTags = [''ubuntu:22.04'']\<rparr>,
      \<lparr>is_ID = ''x'', is_RepoTags = [''ch:22.1'', ''chp-ch:x'']\<rparr>,
      \<lparr>is_ID = ''redis'', is_RepoTags = [''redis:7'']\<rparr>]"

definition mixedRunner :: "int Runner" where
  "mixedRunner = scriptedRunner\<lparr>cli := scriptedClient
     \<lparr>ImageList := (\<lambda>w. (Inr mixedSummaries, w)),
      ImageInspectWithRaw := (\<lambda>name w. (Inr (inspectOf name), w))\<rparr>\<rparr>"

section \<open>Properties\<close>

subsection \<open>Substring search\<close>

lemma Contains_iff: "Contains s substr \<longleftrightarrow> (\<exists>p q. s = p @ substr @ q)"
proof (induction s)
  case Nil
  then show ?case by auto
next
  case (Cons c s)
  show ?case
  proof
    assume "Contains (c # s) substr"
    then consider "prefix substr (c # s)" | "Contains s substr" by auto
    then show "\<exists>p q. c # s = p @ substr @ q"
    proof cases
      case 1
      then obtain q where "c # s = substr @ q" by (auto simp: prefix_def)
      then have "c # s = [] @ substr @ q" by simp
      then show ?thesis by blast
    next
      case 2
      then obtain p q where "s = p @ substr @ q" using Cons.IH by blast
      then have "c # s = (c # p) @ substr @ q" by simp
      then show ?thesis by blast
    qed
  next
    assume "\<exists>p q. c # s = p @ substr @ q"
    then obtain p q where pq: "c # s = p @ substr @ q" by blast
    show "Contains (c # s) substr"
    proof (cases p)
      case Nil
      with pq have "prefix substr (c # s)" by (simp add: prefix_def)
      then show ?thesis by simp
    next
      case (Cons a p')
      with pq have "s = p' @ substr @ q" by simp
      then have "Contains s substr" using Cons.IH by blast
      then show ?thesis by simp
    qed
  qed
qed

subsection \<open>The retry loop of runQuery\<close>

declare execLoop.simps [simp del]

lemma execLoop_no_budget:
  "\<not> retry < MaxExecRetries (cfg r) \<Longrightarrow> execLoop l r st retry out0 err0 s = (Inr (out0, err0), s)"
  by (subst execLoop.simps) simp

lemma execLoop_not_ready:
  assumes "retry < MaxExecRetries (cfg r)" and "exec l r st s = (Inr (out, err), s1)"
    and "\<not> checkIfQueryExecuted out err"
  shows "execLoop l r st retry out0 err0 s
       = execLoop l r st (retry + 1) out err (sleep l (ExecRetryDelay (cfg r)) s1)"
  using assms by (subst execLoop.simps) simp

lemma exec_trace:
  "exec l r st s = (Inr x, s1) \<Longrightarrow>
     \<exists>evs. trace s1 = trace s @ evs \<and> length (filter isExecCreate evs) = 1"
  by (auto simp: exec_def call_def zlog_def Let_def
      split: prod.splits sum.splits option.splits copy_result.splits)

lemma sleep_trace: "trace (sleep l d s) = trace s @ [EvSleep d]"
  by (simp add: sleep_def call_def)

text \<open>
  The run of the loop when every attempt meets the sentinel: \<open>ss ! i\<close> is the state in
  which attempt \<open>i\<close> is made, \<open>outs ! i\<close> what it captures.
\<close>

lemma execLoop_attempts:
  assumes n: "n = nat (MaxExecRetries (cfg r))"
    and len: "length ss = Suc n" "length outs = n"
    and att: "\<forall>i<n. \<exists>s1. exec l r st (ss ! i) = (Inr (outs ! i), s1)
                \<and> \<not> checkIfQueryExecuted (fst (outs ! i)) (snd (outs ! i))
                \<and> ss ! Suc i = sleep l (ExecRetryDelay (cfg r)) s1"
    and k: "k \<le> n"
  shows "execLoop l r st (int k) out0 err0 (ss ! k)
       = (Inr (if k = n then (out0, err0) else last outs), ss ! n)"
  using k
proof (induction "n - k" arbitrary: k out0 err0)
  case 0
  then have kn: "k = n" by simp
  have "\<not> int k < MaxExecRetries (cfg r)" using n kn by simp
  then show ?case using kn by (simp add: execLoop_no_budget)
next
  case (Suc d)
  then have lt: "k < n" by simp
  with att obtain s1 where ex: "exec l r st (ss ! k) = (Inr (outs ! k), s1)"
    and nr: "\<not> checkIfQueryExecuted (fst (outs ! k)) (snd (outs ! k))"
    and nx: "ss ! Suc k = sleep l (ExecRetryDelay (cfg r)) s1" by blast
  from ex have ex': "exec l r st (ss ! k) = (Inr (fst (outs ! k), snd (outs ! k)), s1)" by simp
  have budget: "int k < MaxExecRetries (cfg r)" using lt n by simp
  have "execLoop l r st (int k) out0 err0 (ss ! k)
      = execLoop l r st (int k + 1) (fst (outs ! k)) (snd (outs ! k)) (ss ! Suc k)"
    unfolding nx by (rule execLoop_not_ready[OF budget ex' nr])
  also have "int k + 1 = int (Suc k)" by simp
  also have "execLoop l r st (int (Suc k)) (fst (outs ! k)) (snd (outs ! k)) (ss ! Suc k)
      = (Inr (if Suc k = n then (fst (outs ! k), snd (outs ! k)) else last outs), ss ! n)"
    using Suc.hyps(2) lt by (intro Suc.hyps(1)) simp_all
  also have "(if Suc k = n then (fst (outs ! k), snd (outs ! k)) else last outs) = last outs"
  proof (cases "Suc k = n")
    case True
    with len(2) have "outs \<noteq> []" and "length outs - 1 = k" by auto
    then have "last outs = outs ! k" by (simp add: last_conv_nth)
    with True show ?thesis by simp
  next
    case False
    then show ?thesis by simp
  qed
  finally show ?case using lt by simp
qed

lemma attempts_trace:
  assumes att: "\<forall>i<n. \<exists>s1. exec l r st (ss ! i) = (Inr (outs ! i), s1)
                \<and> \<not> checkIfQueryExecuted (fst (outs ! i)) (snd (outs ! i))
                \<and> ss ! Suc i = sleep l d s1"
  shows "k \<le> n \<Longrightarrow> \<exists>evs. trace (ss ! k) = trace (ss ! 0) @ evs \<and> length (filter isExecCreate evs) = k"
proof (induction k)
  case 0
  then show ?case by simp
next
  case (Suc k)
  then obtain evs where e: "trace (ss ! k) = trace (ss ! 0) @ evs" "length (filter isExecCreate evs) = k"
    by auto
  from Suc.prems att obtain s1 where ex: "exec l r st (ss ! k) = (Inr (outs ! k), s1)"
    and nx: "ss ! Suc k = sleep l d s1" by (meson Suc_le_lessD)
  from exec_trace[OF ex] obtain evs1 where e1: "trace s1 = trace (ss ! k) @ evs1"
    "length (filter isExecCreate evs1) = 1" by blast
  have "trace (ss ! Suc k) = trace (ss ! 0) @ (evs @ evs1 @ [EvSleep d])
      \<and> length (filter isExecCreate (evs @ evs1 @ [EvSleep d])) = Suc k"
    using e e1 by (simp add: nx sleep_trace)
  then show ?case by blast
qed

subsection \<open>C4: the retry budget runs out\<close>

text \<open>
  C4, as stated, has the output be stdout concatenated with stderr. On the code the two
  are joined by a line feed: with two attempts that both answer stdout \<open>a\<close> and the
  sentinel on stderr, \<^verbatim>\<open>runQuery\<close> returns \<open>a\<close>, a line feed and the sentinel, which is
  not \<open>a\<close> followed by the sentinel.
\<close>

theorem runQuery_joins_with_newline_counterexample:
  "fst (runQuery notReadyLib scriptedRunner scriptedRequest start)
     = Inr (''a'' @ [CHR 0x0A] @ ''DB::NetException: Connection refused'')
   \<and> fst (runQuery notReadyLib scriptedRunner scriptedRequest start)
     \<noteq> Inr (''a'' @ ''DB::NetException: Connection refused'')"
  by (simp add: runQuery_def execLoop.simps exec_def call_def zlog_def sleep_def
      checkIfQueryExecuted_def sentinel_def notReadyLib_def scriptedLib_def scriptedRunner_def
      scriptedClient_def scriptedRequest_def start_def)

text \<open>
  C4, amended. Let \<open>n\<close> be \<^verbatim>\<open>MaxExecRetries\<close> (none when it is negative), and let every one
  of the \<open>n\<close> exec attempts of the run succeed with the readiness sentinel in its stderr:
  attempt \<open>i\<close> is made in state \<open>ss ! i\<close>, the first in the state \<^verbatim>\<open>runQuery\<close> starts from,
  it captures \<open>outs ! i\<close>, and the next state is the one after the sleep that follows it.
  Then \<^verbatim>\<open>runQuery\<close> returns with a nil error, in the state after the \<open>n\<close>-th attempt and
  its sleep, having opened exactly \<open>n\<close> exec sessions. The output is built from the last
  captured stdout and stderr (two empty strings when \<open>n = 0\<close>): stdout alone when stderr is
  empty, and stdout, a line feed and stderr otherwise.
\<close>

theorem runQuery_retries_exhausted:
  assumes "n = nat (MaxExecRetries (cfg r))"
    and "length ss = Suc n" and "length outs = n" and "ss ! 0 = s"
    and "\<forall>i<n. \<exists>s1. exec l r st (ss ! i) = (Inr (outs ! i), s1)
                \<and> \<not> checkIfQueryExecuted (fst (outs ! i)) (snd (outs ! i))
                \<and> ss ! Suc i = sleep l (ExecRetryDelay (cfg r)) s1"
  shows "runQuery l r st s
           = (Inr (case (if n = 0 then ('''', '''') else last outs) of
                     (stdout, stderr) \<Rightarrow>
                       if stderr = '''' then stdout else stdout @ [CHR 0x0A] @ stderr),
              ss ! n)
       \<and> (\<exists>evs. trace (ss ! n) = trace s @ evs \<and> length (filter isExecCreate evs) = n)"
proof -
  have "execLoop l r st (int 0) '''' '''' (ss ! 0)
      = (Inr (if 0 = n then ('''', '''') else last outs), ss ! n)"
    by (rule execLoop_attempts[OF assms(1,2,3,5)]) simp
  then have a: "execLoop l r st 0 '''' '''' s
      = (Inr (if n = 0 then ('''', '''') else last outs), ss ! n)"
    using assms(4) by (simp add: eq_commute[of 0 n])
  have b: "\<exists>evs. trace (ss ! n) = trace s @ evs \<and> length (filter isExecCreate evs) = n"
    using attempts_trace[OF assms(5), of n] assms(4) by simp
  from a have "runQuery l r st s
           = (Inr (case (if n = 0 then ('''', '''') else last outs) of
                     (stdout, stderr) \<Rightarrow>
                       if stderr = '''' then stdout else stdout @ [CHR 0x0A] @ stderr),
              ss ! n)"
    by (simp add: runQuery_def split: prod.splits)
  with b show ?thesis by blast
qed

theorem runQuery_retries_exhausted_witness:
  "nat (MaxExecRetries (cfg scriptedRunner)) = 2
   \<and> fst (exec laterReadyLib scriptedRunner scriptedRequest start)
       = Inr (''a'', ''DB::NetException: Connection refused'')
   \<and> fst (exec laterReadyLib scriptedRunner scriptedRequest (start\<lparr>world := 100001000000\<rparr>))
       = Inr (''a'', ''DB::NetException: Connection refused'')
   \<and> fst (exec laterReadyLib scriptedRunner scriptedRequest (start\<lparr>world := 100005000000\<rparr>))
       = Inr (''1'', '''')
   \<and> fst (runQuery laterReadyLib scriptedRunner scriptedRequest start)
       = Inr (''a'' @ [CHR 0x0A] @ ''DB::NetException: Connection refused'')
   \<and> world (snd (runQuery laterReadyLib scriptedRunner scriptedRequest start)) = 100002000000
   \<and> (\<exists>evs. trace (snd (runQuery laterReadyLib scriptedRunner scriptedRequest start)) = trace start @ evs
         \<and> length (filter isExecCreate evs) = 2)"
proof -
  let ?l = laterReadyLib and ?r = scriptedRunner and ?st = scriptedRequest
  let ?d = "ExecRetryDelay (cfg ?r)"
  define s1 where "s1 = sleep ?l ?d (snd (exec ?l ?r ?st start))"
  define s2 where "s2 = sleep ?l ?d (snd (exec ?l ?r ?st s1))"
  let ?ss = "[start, s1, s2]"
  let ?outs = "[(''a'', sentinel), (''a'', sentinel)]"
  have n: "(2::nat) = nat (MaxExecRetries (cfg ?r))" by (simp add: scriptedRunner_def)
  have w1: "world s1 = 100001000000"
    by (simp add: s1_def sleep_def exec_def call_def zlog_def laterReadyLib_def scriptedLib_def
        scriptedRunner_def scriptedClient_def scriptedRequest_def start_def)
  have e0: "fst (exec ?l ?r ?st start) = Inr (''a'', sentinel)"
    by (simp add: exec_def call_def zlog_def laterReadyLib_def scriptedLib_def
        scriptedRunner_def scriptedClient_def scriptedRequest_def start_def)
  have e1: "fst (exec ?l ?r ?st s1) = Inr (''a'', sentinel)"
    using w1 by (simp add: exec_def call_def zlog_def laterReadyLib_def scriptedLib_def
        scriptedRunner_def scriptedClient_def scriptedRequest_def)
  have w2: "world s2 = 100002000000"
    using w1 by (simp add: s2_def sleep_def exec_def call_def zlog_def laterReadyLib_def scriptedLib_def
        scriptedRunner_def scriptedClient_def scriptedRequest_def)
  have e1': "fst (exec ?l ?r ?st (start\<lparr>world := 100001000000\<rparr>)) = Inr (''a'', sentinel)"
    by (simp add: exec_def call_def zlog_def laterReadyLib_def scriptedLib_def
        scriptedRunner_def scriptedClient_def scriptedRequest_def start_def)
  have e5: "fst (exec ?l ?r ?st (start\<lparr>world := 100005000000\<rparr>)) = Inr (''1'', '''')"
    by (simp add: exec_def call_def zlog_def laterReadyLib_def scriptedLib_def
        scriptedRunner_def scriptedClient_def scriptedRequest_def start_def)
  have nr: "\<not> checkIfQueryExecuted ''a'' sentinel"
    unfolding checkIfQueryExecuted_def Contains_iff by (metis append_Nil append_Nil2)
  have att: "\<forall>i<2. \<exists>s'. exec ?l ?r ?st (?ss ! i) = (Inr (?outs ! i), s')
                \<and> \<not> checkIfQueryExecuted (fst (?outs ! i)) (snd (?outs ! i))
                \<and> ?ss ! Suc i = sleep ?l ?d s'"
  proof (intro allI impI)
    fix i :: nat
    assume "i < 2"
    then consider "i = 0" | "i = 1" by linarith
    then show "\<exists>s'. exec ?l ?r ?st (?ss ! i) = (Inr (?outs ! i), s')
                \<and> \<not> checkIfQueryExecuted (fst (?outs ! i)) (snd (?outs ! i))
                \<and> ?ss ! Suc i = sleep ?l ?d s'"
    proof cases
      case 1
      obtain t0 where x: "exec ?l ?r ?st start = (Inr (''a'', sentinel), t0)"
        using e0 by (cases "exec ?l ?r ?st start") auto
      then have "s1 = sleep ?l ?d t0" by (simp add: s1_def)
      with 1 nr x show ?thesis by auto
    next
      case 2
      obtain t1 where x: "exec ?l ?r ?st s1 = (Inr (''a'', sentinel), t1)"
        using e1 by (cases "exec ?l ?r ?st s1") auto
      then have "s2 = sleep ?l ?d t1" by (simp add: s2_def)
      with 2 nr x show ?thesis by auto
    qed
  qed
  have "runQuery ?l ?r ?st start
           = (Inr (case (if (2::nat) = 0 then ('''', '''') else last ?outs) of
                     (stdout, stderr) \<Rightarrow>
                       if stderr = '''' then stdout else stdout @ [CHR 0x0A] @ stderr),
              ?ss ! 2)
       \<and> (\<exists>evs. trace (?ss ! 2) = trace start @ evs \<and> length (filter isExecCreate evs) = 2)"
    by (rule runQuery_retries_exhausted[OF n _ _ _ att]) simp_all
  then have rq: "runQuery ?l ?r ?st start = (Inr (''a'' @ [CHR 0x0A] @ sentinel), s2)"
    and tr: "\<exists>evs. trace s2 = trace start @ evs \<and> length (filter isExecCreate evs) = 2"
    by (simp_all add: sentinel_def)
  from rq have r1: "fst (runQuery ?l ?r ?st start) = Inr (''a'' @ [CHR 0x0A] @ ''DB::NetException: Connection refused'')"
    by (simp add: sentinel_def)
  from rq w2 have r2: "world (snd (runQuery ?l ?r ?st start)) = 100002000000" by simp
  from rq tr have r3: "\<exists>evs. trace (snd (runQuery ?l ?r ?st start)) = trace start @ evs
         \<and> length (filter isExecCreate evs) = 2" by simp
  have n': "nat (MaxExecRetries (cfg scriptedRunner)) = 2" using n by simp
  from n' e0 e1' e5 r1 r2 r3 show ?thesis by (simp add: sentinel_def)
qed

subsection \<open>C10: no retry budget\<close>

text \<open>
  C10. When \<^verbatim>\<open>MaxExecRetries\<close> is zero or negative, \<^verbatim>\<open>runQuery\<close> returns the empty string
  and a nil error and leaves the state as it found it: no exec call, no other call, no log
  line. \<^verbatim>\<open>RunQuery\<close>, once \<^verbatim>\<open>pull\<close> and \<^verbatim>\<open>runContainer\<close> have succeeded, then returns the
  empty output and no error, and what remains is the watcher's removal of the container.
\<close>

theorem runQuery_without_budget:
  assumes "MaxExecRetries (cfg r) \<le> 0"
  shows "runQuery l r st s = (Inr '''', s) \<and>
         (pull l r \<lparr>runID = rid, version = v, query = q, chpImageName = '''', containerID = ''''\<rparr> s = (None, st1, s1)
            \<and> runContainer l r st1 s1 = (None, st2, s2)
          \<longrightarrow> RunQuery l r rid q v s = (Inr '''', watcher r st2 s2))"
proof -
  have rq: "runQuery l r st' s' = (Inr '''', s')" for st' s'
    using assms by (simp add: runQuery_def execLoop_no_budget)
  show ?thesis by (simp add: rq RunQuery_def)
qed

theorem runQuery_without_budget_witness:
  "MaxExecRetries (cfg noRetryRunner) \<le> 0
   \<and> runQuery scriptedLib noRetryRunner scriptedRequest start = (Inr '''', start)
   \<and> fst (pull scriptedLib noRetryRunner
        \<lparr>runID = ''r1'', version = ''22.1'', query = ''SELECT 1'', chpImageName = '''', containerID = ''''\<rparr> start) = None
   \<and> fst (RunQuery scriptedLib noRetryRunner ''r1'' ''SELECT 1'' ''22.1'' start) = Inr ''''"
proof -
  let ?st0 = "\<lparr>runID = ''r1'', version = ''22.1'', query = ''SELECT 1'', chpImageName = '''', containerID = ''''\<rparr>"
  have b: "MaxExecRetries (cfg noRetryRunner) \<le> 0"
    by (simp add: noRetryRunner_def scriptedRunner_def)
  obtain st1 s1 where p: "pull scriptedLib noRetryRunner ?st0 start = (None, st1, s1)"
    by (simp add: pull_def checkIfImageExists_def call_def zlog_def noRetryRunner_def
        scriptedRunner_def scriptedClient_def scriptedLib_def start_def Let_def)
  obtain st2 s2 where c: "runContainer scriptedLib noRetryRunner st1 s1 = (None, st2, s2)"
    by (simp add: runContainer_def call_def zlog_def noRetryRunner_def
        scriptedRunner_def scriptedClient_def scriptedLib_def Let_def split: prod.splits)
  from runQuery_without_budget[OF b, of scriptedLib scriptedRequest start "''r1''" "''22.1''" "''SELECT 1''" st1 s1 st2 s2] p c b
  show ?thesis by simp
qed

subsection \<open>C9: the image cache\<close>

text \<open>
  C9. Once the version resolves to a tag, \<^verbatim>\<open>pull\<close> probes the engine for the image named
  \<^verbatim>\<open>chpImageName\<close>. When the probe succeeds, \<^verbatim>\<open>pull\<close> returns nil and the probe is the only
  call it has issued: no image pull, no image tag. When the probe fails, \<^verbatim>\<open>pull\<close> goes on
  to pull the upstream image and, if that call succeeds, reads the stream and tags the
  upstream image as \<^verbatim>\<open>chpImageName\<close>. When the version does not resolve, no call is issued
  at all. So a pull or a tag call follows a probe miss only.
\<close>

theorem pull_probe_decides:
  "(tagStorage r (version st) = None \<longrightarrow>
      pull l r st s = (Some (ErrNew ''version not found''), st, s))
   \<and> (tagStorage r (version st) = Some tag
        \<and> ImageInspectWithRaw (cli r) (PlaygroundImageName l (repository r) (Digest tag)) (world s) = (Inr img, w)
      \<longrightarrow> pull l r st s =
            (None, st\<lparr>chpImageName := PlaygroundImageName l (repository r) (Digest tag)\<rparr>,
             zlog Debug ''image has already been pulled''
               (s\<lparr>world := w,
                  trace := trace s @ [EvImageInspect (PlaygroundImageName l (repository r) (Digest tag))]\<rparr>)))
   \<and> (tagStorage r (version st) = Some tag
        \<and> ImageInspectWithRaw (cli r) (PlaygroundImageName l (repository r) (Digest tag)) (world s) = (Inl e, w)
      \<longrightarrow> (\<exists>rest.
            trace (snd (snd (pull l r st s))) =
              trace s @ [EvImageInspect (PlaygroundImageName l (repository r) (Digest tag)),
                         EvImagePull (FullImageName l (repository r) (version st))] @ rest
            \<and> (case fst (ImagePull (cli r) (FullImageName l (repository r) (version st)) w) of
                 Inl e' \<Rightarrow> rest = []
               | Inr out \<Rightarrow>
                   rest = [EvReadAll,
                           EvImageTag (FullImageName l (repository r) (version st))
                             (PlaygroundImageName l (repository r) (Digest tag))])))"
  by (auto simp: pull_def checkIfImageExists_def call_def zlog_def Let_def
      split: prod.splits sum.splits option.splits bool.splits)

theorem pull_probe_decides_witness:
  "tagStorage cachedRunner (version scriptedRequest) = Some \<lparr>Digest = ''abc''\<rparr>
   \<and> fst (ImageInspectWithRaw (cli cachedRunner) ''chp-ch:abc'' (world start))
       = Inr \<lparr>ii_ID = ''i1'', ii_RepoTags = [''chp-ch:abc''], ii_Size = 5, ii_LastTagTime = 10\<rparr>
   \<and> fst (pull scriptedLib cachedRunner scriptedRequest start) = None
   \<and> trace (snd (snd (pull scriptedLib cachedRunner scriptedRequest start))) = [EvImageInspect ''chp-ch:abc'']
   \<and> fst (ImageInspectWithRaw (cli scriptedRunner) ''chp-ch:abc'' (world start))
       = Inl (ErrExternal ''no such image'')
   \<and> trace (snd (snd (pull scriptedLib scriptedRunner scriptedRequest start)))
       = [EvImageInspect ''chp-ch:abc'', EvImagePull ''ch:22.1'', EvReadAll, EvImageTag ''ch:22.1'' ''chp-ch:abc'']
   \<and> pull scriptedLib scriptedRunner (scriptedRequest\<lparr>version := ''0.0''\<rparr>) start
       = (Some (ErrNew ''version not found''), scriptedRequest\<lparr>version := ''0.0''\<rparr>, start)"
proof -
  have hit: "tagStorage cachedRunner (version scriptedRequest) = Some \<lparr>Digest = ''abc''\<rparr>
      \<and> ImageInspectWithRaw (cli cachedRunner)
          (PlaygroundImageName scriptedLib (repository cachedRunner) (Digest \<lparr>Digest = ''abc''\<rparr>)) (world start)
        = (Inr \<lparr>ii_ID = ''i1'', ii_RepoTags = [''chp-ch:abc''], ii_Size = 5, ii_LastTagTime = 10\<rparr>, world start)"
    by (simp add: cachedRunner_def scriptedRunner_def scriptedClient_def scriptedLib_def scriptedRequest_def)
  have miss: "tagStorage scriptedRunner (version scriptedRequest) = Some \<lparr>Digest = ''abc''\<rparr>
      \<and> ImageInspectWithRaw (cli scriptedRunner)
          (PlaygroundImageName scriptedLib (repository scriptedRunner) (Digest \<lparr>Digest = ''abc''\<rparr>)) (world start)
        = (Inl (ErrExternal ''no such image''), world start)"
    by (simp add: scriptedRunner_def scriptedClient_def scriptedLib_def scriptedRequest_def)
  have none: "tagStorage scriptedRunner (version (scriptedRequest\<lparr>version := ''0.0''\<rparr>)) = None"
    by (simp add: scriptedRunner_def)
  note a = pull_probe_decides[of cachedRunner scriptedRequest scriptedLib start,
      THEN conjunct2, THEN conjunct1, rule_format, OF hit]
  note b = pull_probe_decides[of scriptedRunner scriptedRequest scriptedLib start,
      THEN conjunct2, THEN conjunct2, rule_format, OF miss]
  note c = pull_probe_decides[of scriptedRunner "scriptedRequest\<lparr>version := ''0.0''\<rparr>" scriptedLib start,
      THEN conjunct1, rule_format, OF none]
  from b obtain rest where
    "trace (snd (snd (pull scriptedLib scriptedRunner scriptedRequest start))) =
       trace start @ [EvImageInspect (PlaygroundImageName scriptedLib (repository scriptedRunner) (Digest \<lparr>Digest = ''abc''\<rparr>)),
         EvImagePull (FullImageName scriptedLib (repository scriptedRunner) (version scriptedRequest))] @ rest"
    and "rest = [EvReadAll, EvImageTag (FullImageName scriptedLib (repository scriptedRunner) (version scriptedRequest))
                  (PlaygroundImageName scriptedLib (repository scriptedRunner) (Digest \<lparr>Digest = ''abc''\<rparr>))]"
    by (auto simp: scriptedRunner_def scriptedClient_def)
  then have b': "trace (snd (snd (pull scriptedLib scriptedRunner scriptedRequest start)))
       = [EvImageInspect ''chp-ch:abc'', EvImagePull ''ch:22.1'', EvReadAll, EvImageTag ''ch:22.1'' ''chp-ch:abc'']"
    by (simp add: scriptedRunner_def scriptedLib_def scriptedRequest_def start_def)
  from a have a': "fst (pull scriptedLib cachedRunner scriptedRequest start) = None
     \<and> trace (snd (snd (pull scriptedLib cachedRunner scriptedRequest start))) = [EvImageInspect ''chp-ch:abc'']"
    by (simp add: zlog_def cachedRunner_def scriptedRunner_def scriptedLib_def scriptedRequest_def start_def)
  from hit miss a' b' c show ?thesis
    by (simp add: scriptedRunner_def scriptedLib_def cachedRunner_def)
qed

subsection \<open>C7: the threshold of the image pass\<close>

text \<open>
  C7. When \<^verbatim>\<open>ImageGCCountThreshold\<close> is unset, \<^verbatim>\<open>triggerImagesGC\<close> returns at once and
  leaves the state as it found it: no image is listed, inspected or removed. When it is
  set and the engine lists fewer candidate images than the threshold, the listing is the
  only call: no image is inspected and none removed.
\<close>

theorem triggerImagesGC_below_threshold:
  "(ImageGCCountThreshold g = None \<longrightarrow> triggerImagesGC l r g s = ((0, 0, None), s))
   \<and> (ImageGCCountThreshold g = Some threshold
        \<and> ImageList (cli r) (world s) = (Inr images, w)
        \<and> length (candidatesOf l r images) < threshold
      \<longrightarrow> triggerImagesGC l r g s = ((0, 0, None), s\<lparr>world := w, trace := trace s @ [EvImageList]\<rparr>))"
  by (simp add: triggerImagesGC_def call_def)

theorem triggerImagesGC_below_threshold_witness:
  "ImageGCCountThreshold scriptedGC = Some 2
   \<and> ImageList (cli mixedRunner) (world start) = (Inr mixedSummaries, world start)
   \<and> length mixedSummaries = 3
   \<and> map is_ID (candidatesOf scriptedLib mixedRunner mixedSummaries) = [''x'']
   \<and> trace (snd (triggerImagesGC scriptedLib mixedRunner scriptedGC start)) = [EvImageList]
   \<and> fst (triggerImagesGC scriptedLib mixedRunner scriptedGC start) = (0, 0, None)
   \<and> trace (snd (triggerImagesGC scriptedLib mixedRunner
               (scriptedGC\<lparr>ImageGCCountThreshold := Some 1, ImageBufferSize := 0\<rparr>) start))
       = [EvImageList, EvImageInspect ''x'', EvImageRemove ''chp-ch:x'' True]
   \<and> triggerImagesGC scriptedLib mixedRunner (scriptedGC\<lparr>ImageGCCountThreshold := None\<rparr>) start
       = ((0, 0, None), start)"
proof -
  have thr: "ImageGCCountThreshold scriptedGC = Some 2" by (simp add: scriptedGC_def)
  have lst: "ImageList (cli mixedRunner) (world start) = (Inr mixedSummaries, world start)"
    by (simp add: mixedRunner_def scriptedRunner_def scriptedClient_def)
  have len: "length mixedSummaries = 3" by (simp add: mixedSummaries_def)
  have cand: "map is_ID (candidatesOf scriptedLib mixedRunner mixedSummaries) = [''x'']"
    by (simp add: candidatesOf_def mixedSummaries_def mixedRunner_def scriptedRunner_def scriptedLib_def)
  have "length (map is_ID (candidatesOf scriptedLib mixedRunner mixedSummaries)) = 1"
    unfolding cand by simp
  then have below: "length (candidatesOf scriptedLib mixedRunner mixedSummaries) < 2" by simp
  have n: "ImageGCCountThreshold (scriptedGC\<lparr>ImageGCCountThreshold := None\<rparr>) = None" by simp
  note a = triggerImagesGC_below_threshold[of scriptedGC scriptedLib mixedRunner start,
      THEN conjunct2, rule_format, OF conjI[OF thr conjI[OF lst below]]]
  note b = triggerImagesGC_below_threshold[of "scriptedGC\<lparr>ImageGCCountThreshold := None\<rparr>" scriptedLib mixedRunner start,
      THEN conjunct1, rule_format, OF n]
  from a have a1: "trace (snd (triggerImagesGC scriptedLib mixedRunner scriptedGC start)) = [EvImageList]"
    and a2: "fst (triggerImagesGC scriptedLib mixedRunner scriptedGC start) = (0, 0, None)"
    by (simp_all add: start_def)
  have met: "trace (snd (triggerImagesGC scriptedLib mixedRunner
               (scriptedGC\<lparr>ImageGCCountThreshold := Some 1, ImageBufferSize := 0\<rparr>) start))
       = [EvImageList, EvImageInspect ''x'', EvImageRemove ''chp-ch:x'' True]"
    by (simp add: triggerImagesGC_def candidatesOf_def removeImages_def lessLastTagTime_def
        call_def zlog_def inspectOf_def mixedRunner_def mixedSummaries_def
        scriptedRunner_def scriptedGC_def scriptedClient_def scriptedLib_def start_def)
  show ?thesis
    by (intro conjI) (fact thr lst len cand a1 a2 met b)+
qed

subsection \<open>C5: an error in the container pass\<close>

text \<open>
  C5, as stated, lets the image pass run in the trigger whose container pass failed. On
  the code it does not: with an engine whose prune call fails and an image threshold that
  is set, the only call of the whole trigger is the prune.
\<close>

theorem triggerGC_skips_images_counterexample:
  "ImageGCCountThreshold scriptedGC = Some 2
   \<and> fst (triggerGC scriptedLib failingPruneRunner scriptedGC start)
       = Some (ErrWrap (ErrWrap (ErrExternal ''engine is down'') ''failed to prune stopped containers'')
                 ''containers gc failed'')
   \<and> trace (snd (triggerGC scriptedLib failingPruneRunner scriptedGC start)) = [EvContainersPrune ''owner=chp'']
   \<and> trace (snd (triggerImagesGC scriptedLib failingPruneRunner scriptedGC start)) = [EvImageList]"
  by (simp add: triggerGC_def triggerContainersGC_def triggerImagesGC_def candidatesOf_def
      isStopped_def call_def failingPruneRunner_def scriptedRunner_def scriptedClient_def
      scriptedLib_def scriptedGC_def start_def)

text \<open>
  C5, amended. Within one trigger the two passes run in sequence. An error of the
  container pass ends the trigger: \<^verbatim>\<open>triggerGC\<close> returns it, wrapped, in the state the
  container pass left, so the image pass does not run in that trigger, and the closure
  \<^verbatim>\<open>trigger\<close> logs it. The image pass runs in the same trigger when the container pass
  returned no error and the runner's context is not done.
\<close>

theorem triggerGC_containers_error:
  "(\<not> isStopped r s \<and> triggerContainersGC l r g s = ((cnt, sp, Some e), s1)
      \<longrightarrow> triggerGC l r g s = (Some (ErrWrap e ''containers gc failed''), s1)
        \<and> trigger l r g s = zlog Error ''localdocker gc trigger failed'' s1)
   \<and> (\<not> isStopped r s \<and> triggerContainersGC l r g s = ((cnt, sp, None), s1) \<and> \<not> isStopped r s1
      \<longrightarrow> triggerGC l r g s =
            (case triggerImagesGC l r g s1 of
               ((_, _, Some e'), s2) \<Rightarrow> (Some (ErrWrap e' ''images gc failed''), s2)
             | ((_, _, None), s2) \<Rightarrow> (None, zlog Debug ''gc finished'' s2)))"
  by (simp add: triggerGC_def trigger_def)

theorem triggerGC_containers_error_witness:
  "\<not> isStopped failingPruneRunner start
   \<and> fst (triggerContainersGC scriptedLib failingPruneRunner scriptedGC start)
       = (0, 0, Some (ErrWrap (ErrExternal ''engine is down'') ''failed to prune stopped containers''))
   \<and> trigger scriptedLib failingPruneRunner scriptedGC start
       = zlog Error ''localdocker gc trigger failed''
           (snd (triggerContainersGC scriptedLib failingPruneRunner scriptedGC start))
   \<and> logs (trigger scriptedLib failingPruneRunner scriptedGC start) = [(Error, ''localdocker gc trigger failed'')]
   \<and> \<not> isStopped scriptedRunner start
   \<and> fst (triggerContainersGC scriptedLib scriptedRunner scriptedGC start) = (0, 0, None)
   \<and> trace (snd (triggerGC scriptedLib scriptedRunner scriptedGC start))
       = [EvContainersPrune ''owner=chp'', EvContainerList ''owner=chp'', EvImageList]"
proof -
  have ns: "\<not> isStopped failingPruneRunner start"
    by (simp add: isStopped_def failingPruneRunner_def scriptedRunner_def)
  have cgf: "fst (triggerContainersGC scriptedLib failingPruneRunner scriptedGC start)
      = (0, 0, Some (ErrWrap (ErrExternal ''engine is down'') ''failed to prune stopped containers''))"
    by (simp add: triggerContainersGC_def call_def failingPruneRunner_def scriptedRunner_def
        scriptedClient_def scriptedLib_def)
  then have cg: "triggerContainersGC scriptedLib failingPruneRunner scriptedGC start
      = ((0, 0, Some (ErrWrap (ErrExternal ''engine is down'') ''failed to prune stopped containers'')),
         snd (triggerContainersGC scriptedLib failingPruneRunner scriptedGC start))"
    by (simp add: prod_eq_iff)
  have lg: "logs (snd (triggerContainersGC scriptedLib failingPruneRunner scriptedGC start)) = []"
    by (simp add: triggerContainersGC_def call_def failingPruneRunner_def scriptedRunner_def
        scriptedClient_def scriptedLib_def start_def)
  have ns2: "\<not> isStopped scriptedRunner s" for s
    by (simp add: isStopped_def scriptedRunner_def)
  have cg2: "triggerContainersGC scriptedLib scriptedRunner scriptedGC start
      = ((0, 0, None), start\<lparr>trace := [EvContainersPrune ''owner=chp'', EvContainerList ''owner=chp'']\<rparr>)"
    by (simp add: triggerContainersGC_def call_def scriptedRunner_def scriptedGC_def
        scriptedClient_def scriptedLib_def start_def)
  note a = triggerGC_containers_error[of failingPruneRunner start scriptedLib scriptedGC,
      THEN conjunct1, rule_format, OF conjI[OF ns cg]]
  note b = triggerGC_containers_error[of scriptedRunner start scriptedLib scriptedGC,
      THEN conjunct2, rule_format, OF conjI[OF ns2 conjI[OF cg2 ns2]]]
  have b': "trace (snd (triggerGC scriptedLib scriptedRunner scriptedGC start))
       = [EvContainersPrune ''owner=chp'', EvContainerList ''owner=chp'', EvImageList]"
    unfolding b
    by (simp add: triggerImagesGC_def candidatesOf_def call_def zlog_def scriptedRunner_def scriptedGC_def
        scriptedClient_def scriptedLib_def start_def)
  from a have a1: "trigger scriptedLib failingPruneRunner scriptedGC start
       = zlog Error ''localdocker gc trigger failed''
           (snd (triggerContainersGC scriptedLib failingPruneRunner scriptedGC start))"
    by simp
  with lg have a2: "logs (trigger scriptedLib failingPruneRunner scriptedGC start)
       = [(Error, ''localdocker gc trigger failed'')]"
    by (simp add: zlog_def)
  have cgf2: "fst (triggerContainersGC scriptedLib scriptedRunner scriptedGC start) = (0, 0, None)"
    by (simp add: cg2)
  from ns ns2[of start] cgf cgf2 a1 a2 b' show ?thesis by blast
qed

subsection \<open>Traces of the helpers\<close>

lemma call_trace:
  "call f ev s = (a, s1) \<Longrightarrow> trace s1 = trace s @ [ev a] \<and> logs s1 = logs s"
  by (auto simp: call_def split: prod.splits)

lemma zlog_trace [simp]: "trace (zlog lvl msg s) = trace s"
  by (simp add: zlog_def)


lemma removeTags_trace:
  "removeTags r tags ok s = (ok', s') \<Longrightarrow>
     \<exists>rs. length rs = length tags \<and> trace s' = trace s @ map2 EvImageRemove tags rs
        \<and> ok' = (ok \<and> False \<notin> set rs)"
proof (induction tags arbitrary: ok s)
  case Nil
  then show ?case by simp
next
  case (Cons tag tags)
  obtain e s1 where c: "call (ImageRemove (cli r) tag) (\<lambda>e. EvImageRemove tag (e = None)) s = (e, s1)"
    by (cases "call (ImageRemove (cli r) tag) (\<lambda>e. EvImageRemove tag (e = None)) s")
  then have t1: "trace s1 = trace s @ [EvImageRemove tag (e = None)]"
    by (simp add: call_trace)
  show ?case
  proof (cases e)
    case None
    with Cons.prems c have "removeTags r tags ok s1 = (ok', s')" by simp
    from Cons.IH[OF this] obtain rs where rs: "length rs = length tags"
      "trace s' = trace s1 @ map2 EvImageRemove tags rs" "ok' = (ok \<and> False \<notin> set rs)" by blast
    with t1 None have "length (True # rs) = length (tag # tags)
        \<and> trace s' = trace s @ map2 EvImageRemove (tag # tags) (True # rs)
        \<and> ok' = (ok \<and> False \<notin> set (True # rs))" by simp
    then show ?thesis by blast
  next
    case (Some err)
    with Cons.prems c have "removeTags r tags False (zlog Error ''failed to delete image tag'' s1) = (ok', s')"
      by simp
    from Cons.IH[OF this] obtain rs where rs: "length rs = length tags"
      "trace s' = trace s1 @ map2 EvImageRemove tags rs" "ok' = (False \<and> False \<notin> set rs)" by auto
    with t1 Some have "length (False # rs) = length (tag # tags)
        \<and> trace s' = trace s @ map2 EvImageRemove (tag # tags) (False # rs)
        \<and> ok' = (ok \<and> False \<notin> set (False # rs))" by simp
    then show ?thesis by blast
  qed
qed

lemma removeImagesFrom_trace:
  "removeImagesFrom r images cnt0 sp0 s = (cnt, sp, s') \<Longrightarrow>
     \<exists>results.
        list_all2 (\<lambda>img rs. length rs = length (ii_RepoTags img)) images results
      \<and> trace s' = trace s @ concat (map2 (\<lambda>img rs. map2 EvImageRemove (ii_RepoTags img) rs) images results)
      \<and> cnt = cnt0 + of_nat (length (filter (\<lambda>(img, rs). False \<notin> set rs) (zip images results)))
      \<and> sp = sp0 + sum_list (map (\<lambda>(img, rs). ii_Size img)
                 (filter (\<lambda>(img, rs). False \<notin> set rs) (zip images results)))"
proof (induction images arbitrary: cnt0 sp0 s)
  case Nil
  then show ?case by simp
next
  case (Cons img images)
  obtain ok s1 where t: "removeTags r (ii_RepoTags img) True s = (ok, s1)"
    by (cases "removeTags r (ii_RepoTags img) True s")
  from removeTags_trace[OF this] obtain rs where rs: "length rs = length (ii_RepoTags img)"
    "trace s1 = trace s @ map2 EvImageRemove (ii_RepoTags img) rs" "ok = (False \<notin> set rs)" by auto
  let ?R = "rs # results"
  show ?case
  proof (cases ok)
    case True
    with Cons.prems t have "removeImagesFrom r images (cnt0 + 1) (sp0 + ii_Size img)
        (zlog Debug ''image has been removed'' s1) = (cnt, sp, s')" by simp
    from Cons.IH[OF this] obtain results where
      res: "list_all2 (\<lambda>img rs. length rs = length (ii_RepoTags img)) images results"
        "trace s' = trace s1 @ concat (map2 (\<lambda>img rs. map2 EvImageRemove (ii_RepoTags img) rs) images results)"
        "cnt = cnt0 + 1 + of_nat (length (filter (\<lambda>(img, rs). False \<notin> set rs) (zip images results)))"
        "sp = sp0 + ii_Size img + sum_list (map (\<lambda>(img, rs). ii_Size img)
                 (filter (\<lambda>(img, rs). False \<notin> set rs) (zip images results)))"
      by auto
    from res rs True have
      "list_all2 (\<lambda>img rs. length rs = length (ii_RepoTags img)) (img # images) (rs # results)
      \<and> trace s' = trace s @ concat (map2 (\<lambda>img rs. map2 EvImageRemove (ii_RepoTags img) rs)
                                       (img # images) (rs # results))
      \<and> cnt = cnt0 + of_nat (length (filter (\<lambda>(img, rs). False \<notin> set rs) (zip (img # images) (rs # results))))
      \<and> sp = sp0 + sum_list (map (\<lambda>(img, rs). ii_Size img)
                 (filter (\<lambda>(img, rs). False \<notin> set rs) (zip (img # images) (rs # results))))"
      by (simp add: add.assoc)
    then show ?thesis by blast
  next
    case False
    with Cons.prems t have "removeImagesFrom r images cnt0 sp0 s1 = (cnt, sp, s')" by simp
    from Cons.IH[OF this] obtain results where
      res: "list_all2 (\<lambda>img rs. length rs = length (ii_RepoTags img)) images results"
        "trace s' = trace s1 @ concat (map2 (\<lambda>img rs. map2 EvImageRemove (ii_RepoTags img) rs) images results)"
        "cnt = cnt0 + of_nat (length (filter (\<lambda>(img, rs). False \<notin> set rs) (zip images results)))"
        "sp = sp0 + sum_list (map (\<lambda>(img, rs). ii_Size img)
                 (filter (\<lambda>(img, rs). False \<notin> set rs) (zip images results)))"
      by auto
    from res rs False have
      "list_all2 (\<lambda>img rs. length rs = length (ii_RepoTags img)) (img # images) (rs # results)
      \<and> trace s' = trace s @ concat (map2 (\<lambda>img rs. map2 EvImageRemove (ii_RepoTags img) rs)
                                       (img # images) (rs # results))
      \<and> cnt = cnt0 + of_nat (length (filter (\<lambda>(img, rs). False \<notin> set rs) (zip (img # images) (rs # results))))
      \<and> sp = sp0 + sum_list (map (\<lambda>(img, rs). ii_Size img)
                 (filter (\<lambda>(img, rs). False \<notin> set rs) (zip (img # images) (rs # results))))"
      by simp
    then show ?thesis by blast
  qed
qed

subsection \<open>C8: which images count as removed\<close>

text \<open>
  C8. \<^verbatim>\<open>removeImages\<close> issues one removal call per repo tag of each image, in order, and
  no other call: a failed call stops neither the remaining tags of the image nor the
  remaining images, and no tag is tried twice. With \<open>results\<close> the outcome of these calls,
  tag by tag for each image, the returned count is the number of images none of whose tag
  removals failed, and the reclaimed space is the sum of the sizes of exactly those images
  (both as the 64-bit counters of the code). An image with a failed tag removal adds to
  neither.
\<close>

theorem removeImages_counts_full_removals:
  assumes "removeImages r images s = (cnt, sp, s')"
  shows "\<exists>results.
        list_all2 (\<lambda>img rs. length rs = length (ii_RepoTags img)) images results
      \<and> trace s' = trace s @ concat (map2 (\<lambda>img rs. map2 EvImageRemove (ii_RepoTags img) rs) images results)
      \<and> cnt = of_nat (length (filter (\<lambda>(img, rs). False \<notin> set rs) (zip images results)))
      \<and> sp = sum_list (map (\<lambda>(img, rs). ii_Size img)
                 (filter (\<lambda>(img, rs). False \<notin> set rs) (zip images results)))"
  using removeImagesFrom_trace[of r images 0 0 s cnt sp s'] assms
  by (simp add: removeImages_def)

theorem removeImages_counts_full_removals_witness:
  "fst (removeImages partialRunner twoImages start) = 1
   \<and> fst (snd (removeImages partialRunner twoImages start)) = 5
   \<and> trace (snd (snd (removeImages partialRunner twoImages start)))
       = [EvImageRemove ''chp-ch:a1'' True, EvImageRemove ''chp-ch:a2'' False, EvImageRemove ''chp-ch:b1'' True]
   \<and> (\<exists>results.
        list_all2 (\<lambda>img rs. length rs = length (ii_RepoTags img)) twoImages results
      \<and> trace (snd (snd (removeImages partialRunner twoImages start)))
          = trace start @ concat (map2 (\<lambda>img rs. map2 EvImageRemove (ii_RepoTags img) rs) twoImages results)
      \<and> fst (removeImages partialRunner twoImages start)
          = of_nat (length (filter (\<lambda>(img, rs). False \<notin> set rs) (zip twoImages results)))
      \<and> fst (snd (removeImages partialRunner twoImages start))
          = sum_list (map (\<lambda>(img, rs). ii_Size img)
                 (filter (\<lambda>(img, rs). False \<notin> set rs) (zip twoImages results))))"
proof -
  have run: "fst (removeImages partialRunner twoImages start) = 1
     \<and> fst (snd (removeImages partialRunner twoImages start)) = 5
     \<and> trace (snd (snd (removeImages partialRunner twoImages start)))
       = [EvImageRemove ''chp-ch:a1'' True, EvImageRemove ''chp-ch:a2'' False, EvImageRemove ''chp-ch:b1'' True]"
    by (simp add: removeImages_def call_def zlog_def twoImages_def partialRunner_def
        scriptedRunner_def scriptedClient_def start_def)
  have "removeImages partialRunner twoImages start
      = (fst (removeImages partialRunner twoImages start),
         fst (snd (removeImages partialRunner twoImages start)),
         snd (snd (removeImages partialRunner twoImages start)))" by simp
  from removeImages_counts_full_removals[OF this] run show ?thesis by blast
qed

subsection \<open>Dates within the range of the time package\<close>








subsection \<open>Force-removals during the sweep\<close>






subsection \<open>C6: the sweep of hung containers\<close>




subsection \<open>Sorting by the time of the last tag\<close>

lemma sortsBy_lessLastTagTime:
  assumes "sortsBy srt lessLastTagTime"
  shows "mset (srt lessLastTagTime xs) = mset xs"
    and "sorted_wrt (\<lambda>a b. ii_LastTagTime a \<le> ii_LastTagTime b) (srt lessLastTagTime xs)"
proof -
  from assms have a: "mset (srt lessLastTagTime xs) = mset xs"
    and b: "sorted_wrt (\<lambda>a b. \<not> lessLastTagTime b a) (srt lessLastTagTime xs)"
    by (simp_all add: sortsBy_def)
  show "mset (srt lessLastTagTime xs) = mset xs" by (rule a)
  have "(\<lambda>a b. \<not> lessLastTagTime b a) = (\<lambda>a b. ii_LastTagTime a \<le> ii_LastTagTime b)"
    by (auto simp: lessLastTagTime_def fun_eq_iff)
  with b show "sorted_wrt (\<lambda>a b. ii_LastTagTime a \<le> ii_LastTagTime b) (srt lessLastTagTime xs)"
    by simp
qed

lemma mset_insertBy: "mset (insertBy lt x ys) = add_mset x (mset ys)"
  by (induction ys) auto

lemma mset_insertionSort: "mset (insertionSort lt xs) = mset xs"
  by (induction xs) (auto simp: mset_insertBy)

lemma set_insertBy: "set (insertBy lt x ys) = insert x (set ys)"
  by (induction ys) auto

lemma sorted_insertBy_lessLastTagTime:
  "sorted_wrt (\<lambda>a b. \<not> lessLastTagTime b a) ys
     \<Longrightarrow> sorted_wrt (\<lambda>a b. \<not> lessLastTagTime b a) (insertBy lessLastTagTime x ys)"
  by (induction ys) (auto simp: set_insertBy lessLastTagTime_def)

lemma sorted_insertionSort_lessLastTagTime:
  "sorted_wrt (\<lambda>a b. \<not> lessLastTagTime b a) (insertionSort lessLastTagTime xs)"
  by (induction xs) (auto simp: sorted_insertBy_lessLastTagTime)

lemma insertionSort_sortsBy: "sortsBy insertionSort lessLastTagTime"
  by (simp add: sortsBy_def mset_insertionSort sorted_insertionSort_lessLastTagTime)

lemma inspectCandidates_all:
  assumes "\<forall>c\<in>set cs. \<forall>w. \<exists>i w'. ImageInspectWithRaw (cli r) (is_ID c) w = (Inr i, w')"
    and "inspectCandidates r cs acc s = (detailed, s')"
  shows "length detailed = length acc + length cs"
  using assms
proof (induction cs arbitrary: acc s)
  case Nil
  then show ?case by simp
next
  case (Cons c cs)
  from Cons.prems(1) obtain i w' where i: "ImageInspectWithRaw (cli r) (is_ID c) (world s) = (Inr i, w')"
    by (meson list.set_intros(1))
  let ?s1 = "s\<lparr>world := w', trace := trace s @ [EvImageInspect (is_ID c)]\<rparr>"
  from Cons.prems(2) i have "inspectCandidates r cs (acc @ [i]) ?s1 = (detailed, s')"
    by (simp add: call_def)
  moreover from Cons.prems(1)
  have "\<forall>c\<in>set cs. \<forall>w. \<exists>i w'. ImageInspectWithRaw (cli r) (is_ID c) w = (Inr i, w')" by simp
  ultimately have "length detailed = length (acc @ [i]) + length cs" by (rule Cons.IH[rotated])
  then show ?case by simp
qed

subsection \<open>C1: which images the image pass removes\<close>

text \<open>
  C1, as stated, has the pass keep the most recently tagged images and remove the oldest.
  On the code it is the other way round. With three candidates tagged at times 10, 20 and
  30, a threshold of 2 and a buffer of 1, the pass removes the tags of the images tagged
  at 20 and at 30, and keeps the image tagged at 10.
\<close>

theorem triggerImagesGC_removes_newest_counterexample:
  "ImageBufferSize scriptedGC = 1
   \<and> map ii_LastTagTime (map inspectOf [''old'', ''mid'', ''new'']) = [10, 20, 30]
   \<and> trace (snd (triggerImagesGC scriptedLib threeImagesRunner scriptedGC start))
       = [EvImageList, EvImageInspect ''new'', EvImageInspect ''old'', EvImageInspect ''mid'',
          EvImageRemove ''chp-ch:mid'' True, EvImageRemove ''chp-ch:new'' True]"
  by (simp add: triggerImagesGC_def candidatesOf_def removeImages_def lessLastTagTime_def
      call_def zlog_def inspectOf_def threeImagesRunner_def threeSummaries_def
      scriptedRunner_def scriptedGC_def scriptedClient_def scriptedLib_def start_def)

text \<open>
  C1, amended. Let the image pass run with the threshold met, let \<open>detailed\<close> be the
  candidates whose inspection succeeded (all of them when no inspection fails), and let
  the buffer size \<open>B\<close> be below their number \<open>D\<close>. The pass sorts \<open>detailed\<close> ascending
  by the time of the last tag, retains the first \<open>B\<close> images of that order, which are the
  \<open>B\<close> least recently tagged, and attempts the removal of exactly the other \<open>D - B\<close>, the
  most recently tagged, with one removal call per repo tag of each of them and no other
  call. With distinct image ids, no image attempted for removal is among the retained.
\<close>

theorem triggerImagesGC_keeps_least_recently_tagged:
  assumes "sortsBy (sort_Slice l) lessLastTagTime"
    and "ImageGCCountThreshold g = Some threshold"
    and "ImageList (cli r) (world s) = (Inr images, w1)"
    and "threshold \<le> length (candidatesOf l r images)"
    and "inspectCandidates r (candidatesOf l r images) []
           (s\<lparr>world := w1, trace := trace s @ [EvImageList]\<rparr>) = (detailed, s2)"
    and "ImageBufferSize g < length detailed"
  shows "\<exists>retained removed results.
      mset (retained @ removed) = mset detailed
    \<and> sorted_wrt (\<lambda>a b. ii_LastTagTime a \<le> ii_LastTagTime b) (retained @ removed)
    \<and> length retained = ImageBufferSize g
    \<and> length removed = length detailed - ImageBufferSize g
    \<and> (\<forall>a\<in>set retained. \<forall>b\<in>set removed. ii_LastTagTime a \<le> ii_LastTagTime b)
    \<and> (distinct (map ii_ID detailed) \<longrightarrow> set (map ii_ID retained) \<inter> set (map ii_ID removed) = {})
    \<and> ((\<forall>c\<in>set (candidatesOf l r images). \<forall>w. \<exists>i w'. ImageInspectWithRaw (cli r) (is_ID c) w = (Inr i, w'))
         \<longrightarrow> length detailed = length (candidatesOf l r images))
    \<and> triggerImagesGC l r g s
        = (case removeImages r removed s2 of (cnt, sp, s3) \<Rightarrow> ((cnt, sp, None), s3))
    \<and> list_all2 (\<lambda>img rs. length rs = length (ii_RepoTags img)) removed results
    \<and> trace (snd (triggerImagesGC l r g s))
        = trace s2 @ concat (map2 (\<lambda>img rs. map2 EvImageRemove (ii_RepoTags img) rs) removed results)"
proof -
  let ?B = "ImageBufferSize g"
  let ?ordered = "sort_Slice l lessLastTagTime detailed"
  let ?retained = "take ?B ?ordered"
  let ?removed = "drop ?B ?ordered"
  have ms: "mset ?ordered = mset detailed"
    and so: "sorted_wrt (\<lambda>a b. ii_LastTagTime a \<le> ii_LastTagTime b) ?ordered"
    using sortsBy_lessLastTagTime[OF assms(1)] by blast+
  from ms have len: "length ?ordered = length detailed" by (rule mset_eq_length)
  have split: "?retained @ ?removed = ?ordered" by simp
  have c1: "mset (?retained @ ?removed) = mset detailed" using ms by simp
  have c2: "sorted_wrt (\<lambda>a b. ii_LastTagTime a \<le> ii_LastTagTime b) (?retained @ ?removed)"
    using so by simp
  have c3: "length ?retained = ?B" using len assms(6) by simp
  have c4: "length ?removed = length detailed - ?B" using len by simp
  have c5: "\<forall>a\<in>set ?retained. \<forall>b\<in>set ?removed. ii_LastTagTime a \<le> ii_LastTagTime b"
    using c2 unfolding sorted_wrt_append by blast
  have c6: "distinct (map ii_ID detailed) \<longrightarrow> set (map ii_ID ?retained) \<inter> set (map ii_ID ?removed) = {}"
  proof
    assume "distinct (map ii_ID detailed)"
    moreover have "mset (map ii_ID ?ordered) = mset (map ii_ID detailed)" using ms by simp
    ultimately have "distinct (map ii_ID ?ordered)" by (metis mset_eq_imp_distinct_iff)
    then have "distinct (map ii_ID ?retained @ map ii_ID ?removed)"
      by (simp flip: map_append)
    then show "set (map ii_ID ?retained) \<inter> set (map ii_ID ?removed) = {}" by simp
  qed
  have c7: "(\<forall>c\<in>set (candidatesOf l r images). \<forall>w. \<exists>i w'. ImageInspectWithRaw (cli r) (is_ID c) w = (Inr i, w'))
         \<longrightarrow> length detailed = length (candidatesOf l r images)"
    using inspectCandidates_all[OF _ assms(5)] by simp
  have c8: "triggerImagesGC l r g s
        = (case removeImages r ?removed s2 of (cnt, sp, s3) \<Rightarrow> ((cnt, sp, None), s3))"
    using assms(2,3,4,5,6) len by (simp add: triggerImagesGC_def call_def Let_def)
  obtain cnt sp s3 where rm: "removeImages r ?removed s2 = (cnt, sp, s3)"
    by (cases "removeImages r ?removed s2") auto
  then have "removeImagesFrom r ?removed 0 0 s2 = (cnt, sp, s3)" by (simp add: removeImages_def)
  from removeImagesFrom_trace[OF this] obtain results where
    c9: "list_all2 (\<lambda>img rs. length rs = length (ii_RepoTags img)) ?removed results"
    and tr: "trace s3 = trace s2 @ concat (map2 (\<lambda>img rs. map2 EvImageRemove (ii_RepoTags img) rs) ?removed results)"
    by blast
  from c8 rm tr have c10: "trace (snd (triggerImagesGC l r g s))
        = trace s2 @ concat (map2 (\<lambda>img rs. map2 EvImageRemove (ii_RepoTags img) rs) ?removed results)"
    by simp
  from c1 c2 c3 c4 c5 c6 c7 c8 c9 c10 show ?thesis by blast
qed

theorem triggerImagesGC_keeps_least_recently_tagged_witness:
  "ImageGCCountThreshold scriptedGC = Some 2
   \<and> ImageBufferSize scriptedGC = 1
   \<and> ImageList (cli threeImagesRunner) (world start) = (Inr threeSummaries, world start)
   \<and> candidatesOf scriptedLib threeImagesRunner threeSummaries = threeSummaries
   \<and> fst (inspectCandidates threeImagesRunner threeSummaries []
           (start\<lparr>world := world start, trace := trace start @ [EvImageList]\<rparr>))
       = map inspectOf [''new'', ''old'', ''mid'']
   \<and> (\<exists>retained removed results.
      mset (retained @ removed) = mset (map inspectOf [''new'', ''old'', ''mid''])
    \<and> sorted_wrt (\<lambda>a b. ii_LastTagTime a \<le> ii_LastTagTime b) (retained @ removed)
    \<and> length retained = 1
    \<and> length removed = 2
    \<and> list_all2 (\<lambda>img rs. length rs = length (ii_RepoTags img)) removed results
    \<and> trace (snd (triggerImagesGC scriptedLib threeImagesRunner scriptedGC start))
        = [EvImageList, EvImageInspect ''new'', EvImageInspect ''old'', EvImageInspect ''mid'']
          @ concat (map2 (\<lambda>img rs. map2 EvImageRemove (ii_RepoTags img) rs) removed results))"
proof -
  let ?s1 = "start\<lparr>world := world start, trace := trace start @ [EvImageList]\<rparr>"
  let ?d = "map inspectOf [''new'', ''old'', ''mid'']"
  have srt: "sortsBy (sort_Slice scriptedLib) lessLastTagTime"
    by (simp add: scriptedLib_def insertionSort_sortsBy)
  have thr: "ImageGCCountThreshold scriptedGC = Some 2" and buf: "ImageBufferSize scriptedGC = 1"
    by (simp_all add: scriptedGC_def)
  have lst: "ImageList (cli threeImagesRunner) (world start) = (Inr threeSummaries, world start)"
    by (simp add: threeImagesRunner_def scriptedRunner_def scriptedClient_def)
  have cand: "candidatesOf scriptedLib threeImagesRunner threeSummaries = threeSummaries"
    by (simp add: candidatesOf_def threeSummaries_def threeImagesRunner_def scriptedRunner_def
        scriptedLib_def)
  have enough: "2 \<le> length (candidatesOf scriptedLib threeImagesRunner threeSummaries)"
    by (simp add: cand) (simp add: threeSummaries_def)
  have inspf: "fst (inspectCandidates threeImagesRunner threeSummaries [] ?s1) = ?d"
    and insps: "trace (snd (inspectCandidates threeImagesRunner threeSummaries [] ?s1))
       = [EvImageList, EvImageInspect ''new'', EvImageInspect ''old'', EvImageInspect ''mid'']"
    by (simp_all add: threeSummaries_def call_def threeImagesRunner_def scriptedRunner_def
        scriptedClient_def start_def)
  from inspf have insp: "inspectCandidates threeImagesRunner
        (candidatesOf scriptedLib threeImagesRunner threeSummaries) [] ?s1
      = (?d, snd (inspectCandidates threeImagesRunner threeSummaries [] ?s1))"
    by (simp add: cand prod_eq_iff)
  have lt: "ImageBufferSize scriptedGC < length ?d" by (simp add: buf)
  from triggerImagesGC_keeps_least_recently_tagged[OF srt thr lst enough insp lt]
  obtain retained removed results where
      f1: "mset (retained @ removed) = mset ?d"
      and f2: "sorted_wrt (\<lambda>a b. ii_LastTagTime a \<le> ii_LastTagTime b) (retained @ removed)"
      and f3: "length retained = ImageBufferSize scriptedGC"
      and f4: "length removed = length ?d - ImageBufferSize scriptedGC"
      and f5: "list_all2 (\<lambda>img rs. length rs = length (ii_RepoTags img)) removed results"
      and f6: "trace (snd (triggerImagesGC scriptedLib threeImagesRunner scriptedGC start))
        = trace (snd (inspectCandidates threeImagesRunner threeSummaries [] ?s1))
          @ concat (map2 (\<lambda>img rs. map2 EvImageRemove (ii_RepoTags img) rs) removed results)"
    by blast
  from f3 buf have f3': "length retained = 1" by simp
  from f4 buf have f4': "length removed = 2" by simp
  note f6' = f6[unfolded insps]
  from f1 f2 f3' f4' f5 f6' have "mset (retained @ removed) = mset ?d
    \<and> sorted_wrt (\<lambda>a b. ii_LastTagTime a \<le> ii_LastTagTime b) (retained @ removed)
    \<and> length retained = 1
    \<and> length removed = 2
    \<and> list_all2 (\<lambda>img rs. length rs = length (ii_RepoTags img)) removed results
    \<and> trace (snd (triggerImagesGC scriptedLib threeImagesRunner scriptedGC start))
        = [EvImageList, EvImageInspect ''new'', EvImageInspect ''old'', EvImageInspect ''mid'']
          @ concat (map2 (\<lambda>img rs. map2 EvImageRemove (ii_RepoTags img) rs) removed results)"
    by blast
  with thr buf lst cand inspf show ?thesis by blast
qed

subsection \<open>C3: the readiness check\<close>

text \<open>
  C3. For all stdout and stderr, the readiness check answers "not ready" (returns false)
  exactly when stderr contains the sentinel \<^verbatim>\<open>DB::NetException: Connection refused\<close> as a
  substring. Empty stderr counts as ready, and the answer is the same for any two stdout
  values.
\<close>

theorem checkIfQueryExecuted_sentinel:
  "(\<not> checkIfQueryExecuted stdout stderr) = (\<exists>p q. stderr = p @ ''DB::NetException: Connection refused'' @ q)
   \<and> checkIfQueryExecuted stdout ''''
   \<and> checkIfQueryExecuted stdout stderr = checkIfQueryExecuted stdout' stderr"
  by (simp add: checkIfQueryExecuted_def sentinel_def Contains_iff)

end
